theory Spec2Isabelle
  imports Main "HOL-Library.Word" "HOL-Library.AList"
begin

section \<open>The folder summary service of lib/model/folder\_summary.go\<close>

text \<open>
  The service watches the event bus, keeps a set of folders whose summary has to be
  recalculated, and at intervals logs a FolderSummary event and FolderCompletion events
  for them. The embedding follows the Go source function by function.

  \<^item> A Go map is an association list with unique keys: \<open>m[k] = v\<close> is
    \<open>AList.update k v m\<close>, \<open>delete(m, k)\<close> is \<open>AList.delete k m\<close>, \<open>m[k]\<close> is
    \<open>map_of m k\<close> (the zero value when it is \<open>None\<close>), and \<open>range m\<close> visits the
    list from its head. Go leaves the order of \<open>range\<close> open; the list order is one
    of the orders it may take.
  \<^item> The integer fields of \<open>db.Counts\<close> are signed machine integers. Their
    declaration is in lib/db, so the data types take the type \<open>'f\<close> of the item
    counts and the type \<open>'b\<close> of the byte counts and sequence numbers as parameters,
    and the functions that calculate use them at \<open>'f word\<close> and \<open>'b word\<close>, for
    every width. Arithmetic wraps around, comparisons with zero are signed.
  \<^item> \<open>protocol.DeviceID\<close> is a type parameter \<open>'d\<close>: the code compares device
    identifiers for equality and converts them from and to strings.
  \<^item> \<open>time.Time\<close> is an integer count of nanoseconds, \<open>time.Duration\<close> is Go's
    \<open>int64\<close>.
  \<^item> The mutexes guard one read, write or loop each, and the two goroutines share
    nothing else: every function below is one atomic step, the clock readings and the
    readiness of the receiver of the channel \<open>immediate\<close> are arguments.
  \<^item> A failed type assertion or a failed conversion panics: the functions that contain
    one return \<open>panic + _\<close>.
\<close>

subsection \<open>Time\<close>

type_synonym Time = int
type_synonym Duration = "64 word"

definition Second :: Duration where
  "Second = 1000000000"

definition Minute :: Duration where
  "Minute = 60 * Second"

definition minSummaryInterval :: Duration where
  "minSummaryInterval = Minute"

definition pumpInterval :: Duration where
  "pumpInterval = 2 * Second"

text \<open>
  \<open>time.Since(t)\<close> is \<open>time.Now().Sub(t)\<close>; the reading of the clock is the first
  argument. \<open>Sub\<close> returns the largest or the smallest duration when the difference does
  not fit into one.
\<close>

definition Since :: "Time \<Rightarrow> Time \<Rightarrow> Duration" where
  "Since now t =
     (let d = now - t in
      if 9223372036854775807 < d then word_of_int 9223372036854775807
      else if d < - 9223372036854775808 then word_of_int (- 9223372036854775808)
      else word_of_int d)"

text \<open>
  A timer is the time at which it fires: \<open>pump.Reset(wait)\<close>, called when the clock
  reads \<open>now\<close>, moves it to \<open>now + wait\<close>.
\<close>

definition Reset :: "Time \<Rightarrow> Duration \<Rightarrow> Time" where
  "Reset now wait = now + sint wait"

subsection \<open>Errors, values and events\<close>

text \<open>
  The two errors that \<open>Summary\<close> compares with, and every other error with its text.
\<close>

datatype error = ErrFolderPaused | errFolderNotRunning | OtherError string

datatype panic = Panic

typedecl FileError
typedecl pullerProgress

text \<open>
  The dynamic values of type \<open>interface{}\<close> that occur in event payloads and in the
  summary: \<open>nil\<close>, an \<open>int\<close>, an item count, a byte count or sequence number, a
  string, a bool, a \<open>time.Time\<close>, and the three map types of the payloads.
\<close>

datatype ('f, 'b) any =
    GoNil
  | GoInt int
  | GoCount 'f
  | GoSize 'b
  | GoString string
  | GoBool bool
  | GoTime Time
  | MapStringString "(string \<times> string) list"
  | MapStringProgress "(string \<times> (string \<times> pullerProgress) list) list"
  | MapStringInterface "(string \<times> ('f, 'b) any) list"

datatype EventType =
    LocalIndexUpdated
  | RemoteIndexUpdated
  | StateChanged
  | RemoteDownloadProgress
  | DeviceConnected
  | FolderWatchStateChanged
  | DownloadProgress
  | FolderSummary
  | FolderCompletion

text \<open>An event is its type and its payload, the two fields the service reads and logs.\<close>

datatype ('f, 'b) Event = Event EventType "('f, 'b) any"

text \<open>\<open>m[k]\<close> on a \<open>map[string]interface{}\<close>: \<open>nil\<close> for a missing key.\<close>

definition index_any :: "(string \<times> ('f, 'b) any) list \<Rightarrow> string \<Rightarrow> ('f, 'b) any" where
  "index_any m k = (case map_of m k of None \<Rightarrow> GoNil | Some v \<Rightarrow> v)"

text \<open>\<open>m[k]\<close> on a \<open>map[string]string\<close>: the empty string for a missing key.\<close>

definition index_string :: "(string \<times> string) list \<Rightarrow> string \<Rightarrow> string" where
  "index_string m k = (case map_of m k of None \<Rightarrow> [] | Some v \<Rightarrow> v)"

text \<open>The type assertion \<open>x.(string)\<close>.\<close>

fun assert_string :: "('f, 'b) any \<Rightarrow> panic + string" where
  "assert_string (GoString s) = Inr s"
| "assert_string _ = Inl Panic"

subsection \<open>The collaborators\<close>

record ('f, 'b) Counts =
  Files :: 'f
  Directories :: 'f
  Symlinks :: 'f
  Deleted :: 'f
  Bytes :: 'b

record ('f, 'b, 'd) Snapshot =
  GlobalSize :: "('f, 'b) Counts"
  LocalSize :: "('f, 'b) Counts"
  NeedSize :: "('f, 'b) Counts"
  ReceiveOnlyChangedSize :: "('f, 'b) Counts"
  Sequence :: "'d \<Rightarrow> 'b"

text \<open>
  The queries of the \<open>Model\<close> interface that the service calls, each with the results
  the source reads. \<open>Connection\<close> is the second result of the call, the first is
  dropped by the source; \<open>Completion\<close> is \<open>Completion(device, folder).Map()\<close>.
\<close>

record ('f, 'b, 'd) Model =
  DBSnapshot :: "string \<Rightarrow> error + ('f, 'b, 'd) Snapshot"
  FolderErrors :: "string \<Rightarrow> FileError list \<times> error option"
  FolderProgressBytesCompleted :: "string \<Rightarrow> 'b"
  State :: "string \<Rightarrow> string \<times> Time \<times> error option"
  GetIgnores :: "string \<Rightarrow> string list \<times> string list \<times> error option"
  WatchError :: "string \<Rightarrow> error option"
  Connection :: "'d \<Rightarrow> bool"
  Completion :: "'d \<Rightarrow> string \<Rightarrow> (string \<times> ('f, 'b) any) list"

datatype FolderType = FolderTypeSendReceive | FolderTypeSendOnly | FolderTypeReceiveOnly

record 'd FolderDeviceConfiguration =
  DeviceID :: 'd

record 'd FolderConfiguration =
  ID :: string
  Type :: FolderType
  Devices :: "'d FolderDeviceConfiguration list"
  IgnoreDelete :: bool

text \<open>
  \<open>config.Wrapper\<close>: \<open>Folder(id)\<close> with its \<open>ok\<close> result as an option, and the map
  that \<open>Folders()\<close> returns.
\<close>

record 'd Wrapper =
  Folder :: "string \<Rightarrow> 'd FolderConfiguration option"
  Folders :: "(string \<times> 'd FolderConfiguration) list"

text \<open>
  What the source uses of the packages lib/db and lib/protocol and of the error values,
  none of it declared in this file: \<open>Counts.TotalItems()\<close>, \<open>err.Error()\<close>,
  \<open>protocol.LocalDeviceID\<close>, \<open>protocol.GlobalDeviceID\<close>,
  \<open>protocol.DeviceIDFromString\<close> (its error result is dropped by the source) and
  \<open>DeviceID.String()\<close>. They are parameters.
\<close>

record ('f, 'b, 'd) packages =
  TotalItems :: "('f, 'b) Counts \<Rightarrow> 'f"
  Error :: "error \<Rightarrow> string"
  LocalDeviceID :: 'd
  GlobalDeviceID :: 'd
  DeviceIDFromString :: "string \<Rightarrow> 'd"
  String :: "'d \<Rightarrow> string"

subsection \<open>The service\<close>

text \<open>
  The fields of \<open>folderSummaryService\<close>. The supervisor and the mutexes have no state
  of their own here; the event logger is the list of events a function returns; the
  channel \<open>immediate\<close> is the folder a function sends or receives. \<open>pkgs\<close> holds the
  parameters above.
\<close>

record ('f, 'b, 'd) folderSummaryService =
  pkgs :: "('f, 'b, 'd) packages"
  cfg :: "'d Wrapper"
  model :: "('f, 'b, 'd) Model"
  id_self :: 'd
  folders :: "(string \<times> unit) list"
  lastEventReq :: Time

subsection \<open>Summary\<close>

text \<open>\<open>strings.HasPrefix\<close>.\<close>

definition HasPrefix :: "string \<Rightarrow> string \<Rightarrow> bool" where
  "HasPrefix s pre = (take (length pre) s = pre)"

text \<open>
  The loop over the ignore patterns: the first line that is not empty and not a comment
  sets the entry and ends the loop.
\<close>

fun ignorePatternsLoop ::
  "(string \<times> ('f, 'b) any) list \<Rightarrow> string list \<Rightarrow> (string \<times> ('f, 'b) any) list" where
  "ignorePatternsLoop res [] = res"
| "ignorePatternsLoop res (line # rest) =
     (if 0 < length line \<and> \<not> HasPrefix line ''//''
      then AList.update ''ignorePatterns'' (GoBool True) res
      else ignorePatternsLoop res rest)"

definition Summary ::
  "('f::len word, 'b::len word, 'd) folderSummaryService \<Rightarrow> string \<Rightarrow>
     error + (string \<times> ('f word, 'b word) any) list" where
  "Summary c folder =
    (case DBSnapshot (model c) folder of
       Inl err \<Rightarrow> Inl err
     | Inr snap \<Rightarrow>
        (case FolderErrors (model c) folder of (errors, err) \<Rightarrow>
          if err \<noteq> None \<and> err \<noteq> Some ErrFolderPaused \<and> err \<noteq> Some errFolderNotRunning
          then Inl (the err)
          else
           (let res = [];
                res = AList.update ''errors'' (GoInt (int (length errors))) res;
                res = AList.update ''pullErrors'' (GoInt (int (length errors))) res;
                res = AList.update ''invalid'' (GoString '''') res;

                global = GlobalSize snap;
                res = AList.update ''globalFiles'' (GoCount (Files global)) res;
                res = AList.update ''globalDirectories'' (GoCount (Directories global)) res;
                res = AList.update ''globalSymlinks'' (GoCount (Symlinks global)) res;
                res = AList.update ''globalDeleted'' (GoCount (Deleted global)) res;
                res = AList.update ''globalBytes'' (GoSize (Bytes global)) res;
                res = AList.update ''globalTotalItems''
                        (GoCount (TotalItems (pkgs c) global)) res;

                local = LocalSize snap;
                res = AList.update ''localFiles'' (GoCount (Files local)) res;
                res = AList.update ''localDirectories'' (GoCount (Directories local)) res;
                res = AList.update ''localSymlinks'' (GoCount (Symlinks local)) res;
                res = AList.update ''localDeleted'' (GoCount (Deleted local)) res;
                res = AList.update ''localBytes'' (GoSize (Bytes local)) res;
                res = AList.update ''localTotalItems''
                        (GoCount (TotalItems (pkgs c) local)) res;

                need = NeedSize snap;
                need = need\<lparr>Bytes :=
                         Bytes need - FolderProgressBytesCompleted (model c) folder\<rparr>;
                need = (if Bytes need <s 0 then need\<lparr>Bytes := 0\<rparr> else need);
                res = AList.update ''needFiles'' (GoCount (Files need)) res;
                res = AList.update ''needDirectories'' (GoCount (Directories need)) res;
                res = AList.update ''needSymlinks'' (GoCount (Symlinks need)) res;
                res = AList.update ''needDeletes'' (GoCount (Deleted need)) res;
                res = AList.update ''needBytes'' (GoSize (Bytes need)) res;
                res = AList.update ''needTotalItems''
                        (GoCount (TotalItems (pkgs c) need)) res;

                fcfg = Folder (cfg c) folder;

                res = (case fcfg of
                         Some fc \<Rightarrow>
                           if IgnoreDelete fc
                           then AList.update ''needDeletes'' (GoInt 0) res else res
                       | None \<Rightarrow> res);

                res = (case fcfg of
                         Some fc \<Rightarrow>
                           if Type fc = FolderTypeReceiveOnly
                           then
                             (let ro = ReceiveOnlyChangedSize snap;
                                  res = AList.update ''receiveOnlyChangedFiles''
                                          (GoCount (Files ro)) res;
                                  res = AList.update ''receiveOnlyChangedDirectories''
                                          (GoCount (Directories ro)) res;
                                  res = AList.update ''receiveOnlyChangedSymlinks''
                                          (GoCount (Symlinks ro)) res;
                                  res = AList.update ''receiveOnlyChangedDeletes''
                                          (GoCount (Deleted ro)) res;
                                  res = AList.update ''receiveOnlyChangedBytes''
                                          (GoSize (Bytes ro)) res;
                                  res = AList.update ''receiveOnlyTotalItems''
                                          (GoCount (TotalItems (pkgs c) ro)) res
                              in res)
                           else res
                       | None \<Rightarrow> res);

                res = AList.update ''inSyncFiles''
                        (GoCount (Files global - Files need)) res;
                res = AList.update ''inSyncBytes''
                        (GoSize (Bytes global - Bytes need)) res
            in
            (case State (model c) folder of (state, stateChanged, err) \<Rightarrow>
              (let res = AList.update ''state'' (GoString state) res;
                   res = AList.update ''stateChanged'' (GoTime stateChanged) res;
                   res = (case err of
                            Some e \<Rightarrow> AList.update ''error'' (GoString (Error (pkgs c) e)) res
                          | None \<Rightarrow> res);

                   ourSeq = Sequence snap (LocalDeviceID (pkgs c));
                   remoteSeq = Sequence snap (GlobalDeviceID (pkgs c));

                   res = AList.update ''version'' (GoSize (ourSeq + remoteSeq)) res;
                   res = AList.update ''sequence'' (GoSize (ourSeq + remoteSeq)) res
               in
               (case GetIgnores (model c) folder of (ignorePatterns, _, _) \<Rightarrow>
                 (let res = AList.update ''ignorePatterns'' (GoBool False) res;
                      res = ignorePatternsLoop res ignorePatterns;

                      res = (case WatchError (model c) folder of
                               Some e \<Rightarrow>
                                 AList.update ''watchError''
                                   (GoString (Error (pkgs c) e)) res
                             | None \<Rightarrow> res)
                  in Inr res)))))))"

subsection \<open>Summary in parts\<close>

text \<open>
  The body of \<open>Summary\<close> once more, cut at four of its lines, each part ending in the
  next one: from \<open>GetIgnores\<close> (source line 141) to the end, from \<open>State\<close> (line 130),
  from the lookup of the configuration (line 110), and from \<open>NeedSize\<close> (line 101).
  \<open>Summary\<close> is the chain of the parts: lemma \<open>Summary_parts\<close> below.
\<close>

definition summaryIgnores ::
  "('f::len word, 'b::len word, 'd) folderSummaryService \<Rightarrow> string \<Rightarrow>
     (string \<times> ('f word, 'b word) any) list \<Rightarrow> error + (string \<times> ('f word, 'b word) any) list" where
  "summaryIgnores c folder res =
     (case GetIgnores (model c) folder of (ignorePatterns, _, _) \<Rightarrow>
       (let res = AList.update ''ignorePatterns'' (GoBool False) res;
            res = ignorePatternsLoop res ignorePatterns;

            res = (case WatchError (model c) folder of
                     Some e \<Rightarrow>
                       AList.update ''watchError''
                         (GoString (Error (pkgs c) e)) res
                   | None \<Rightarrow> res)
        in Inr res))"

definition summaryState ::
  "('f::len word, 'b::len word, 'd) folderSummaryService \<Rightarrow> string \<Rightarrow>
     ('f word, 'b word, 'd) Snapshot \<Rightarrow>
     (string \<times> ('f word, 'b word) any) list \<Rightarrow> error + (string \<times> ('f word, 'b word) any) list" where
  "summaryState c folder snap res =
     (case State (model c) folder of (state, stateChanged, err) \<Rightarrow>
       (let res = AList.update ''state'' (GoString state) res;
            res = AList.update ''stateChanged'' (GoTime stateChanged) res;
            res = (case err of
                     Some e \<Rightarrow> AList.update ''error'' (GoString (Error (pkgs c) e)) res
                   | None \<Rightarrow> res);

            ourSeq = Sequence snap (LocalDeviceID (pkgs c));
            remoteSeq = Sequence snap (GlobalDeviceID (pkgs c));

            res = AList.update ''version'' (GoSize (ourSeq + remoteSeq)) res;
            res = AList.update ''sequence'' (GoSize (ourSeq + remoteSeq)) res
        in summaryIgnores c folder res))"

definition summaryConfig ::
  "('f::len word, 'b::len word, 'd) folderSummaryService \<Rightarrow> string \<Rightarrow>
     ('f word, 'b word, 'd) Snapshot \<Rightarrow> ('f word, 'b word) Counts \<Rightarrow> ('f word, 'b word) Counts \<Rightarrow>
     (string \<times> ('f word, 'b word) any) list \<Rightarrow> error + (string \<times> ('f word, 'b word) any) list" where
  "summaryConfig c folder snap global need res =
     (let fcfg = Folder (cfg c) folder;

          res = (case fcfg of
                   Some fc \<Rightarrow>
                     if IgnoreDelete fc
                     then AList.update ''needDeletes'' (GoInt 0) res else res
                 | None \<Rightarrow> res);

          res = (case fcfg of
                   Some fc \<Rightarrow>
                     if Type fc = FolderTypeReceiveOnly
                     then
                       (let ro = ReceiveOnlyChangedSize snap;
                            res = AList.update ''receiveOnlyChangedFiles''
                                    (GoCount (Files ro)) res;
                            res = AList.update ''receiveOnlyChangedDirectories''
                                    (GoCount (Directories ro)) res;
                            res = AList.update ''receiveOnlyChangedSymlinks''
                                    (GoCount (Symlinks ro)) res;
                            res = AList.update ''receiveOnlyChangedDeletes''
                                    (GoCount (Deleted ro)) res;
                            res = AList.update ''receiveOnlyChangedBytes''
                                    (GoSize (Bytes ro)) res;
                            res = AList.update ''receiveOnlyTotalItems''
                                    (GoCount (TotalItems (pkgs c) ro)) res
                        in res)
                     else res
                 | None \<Rightarrow> res);

          res = AList.update ''inSyncFiles''
                  (GoCount (Files global - Files need)) res;
          res = AList.update ''inSyncBytes''
                  (GoSize (Bytes global - Bytes need)) res
      in summaryState c folder snap res)"

definition summaryNeed ::
  "('f::len word, 'b::len word, 'd) folderSummaryService \<Rightarrow> string \<Rightarrow>
     ('f word, 'b word, 'd) Snapshot \<Rightarrow> ('f word, 'b word) Counts \<Rightarrow>
     (string \<times> ('f word, 'b word) any) list \<Rightarrow> error + (string \<times> ('f word, 'b word) any) list" where
  "summaryNeed c folder snap global res =
     (let need = NeedSize snap;
          need = need\<lparr>Bytes :=
                   Bytes need - FolderProgressBytesCompleted (model c) folder\<rparr>;
          need = (if Bytes need <s 0 then need\<lparr>Bytes := 0\<rparr> else need);
          res = AList.update ''needFiles'' (GoCount (Files need)) res;
          res = AList.update ''needDirectories'' (GoCount (Directories need)) res;
          res = AList.update ''needSymlinks'' (GoCount (Symlinks need)) res;
          res = AList.update ''needDeletes'' (GoCount (Deleted need)) res;
          res = AList.update ''needBytes'' (GoSize (Bytes need)) res;
          res = AList.update ''needTotalItems''
                  (GoCount (TotalItems (pkgs c) need)) res
      in summaryConfig c folder snap global need res)"

subsection \<open>OnEventRequest\<close>

definition OnEventRequest ::
  "('f, 'b, 'd) folderSummaryService \<Rightarrow> Time \<Rightarrow> ('f, 'b, 'd) folderSummaryService" where
  "OnEventRequest c now = c\<lparr>lastEventReq := now\<rparr>"

subsection \<open>processUpdate\<close>

text \<open>
  The inner loop of the case \<open>DeviceConnected\<close>: the first device of the folder that is
  the connected one marks the folder, and the loop goes on with the next folder.
\<close>

fun markDevices ::
  "(string \<times> unit) list \<Rightarrow> string \<Rightarrow> 'd FolderDeviceConfiguration list \<Rightarrow> 'd \<Rightarrow>
     (string \<times> unit) list" where
  "markDevices fs fid [] deviceID = fs"
| "markDevices fs fid (dev # devs) deviceID =
     (if DeviceID dev = deviceID then AList.update fid () fs
      else markDevices fs fid devs deviceID)"

text \<open>The outer loop, over the values of \<open>c.cfg.Folders()\<close>.\<close>

fun markFolders ::
  "(string \<times> unit) list \<Rightarrow> (string \<times> 'd FolderConfiguration) list \<Rightarrow> 'd \<Rightarrow>
     (string \<times> unit) list" where
  "markFolders fs [] deviceID = fs"
| "markFolders fs ((k, folder) # rest) deviceID =
     markFolders (markDevices fs (ID folder) (Devices folder) deviceID) rest deviceID"

text \<open>The loop of the case \<open>DownloadProgress\<close>, over the keys of the payload.\<close>

fun markKeys :: "(string \<times> unit) list \<Rightarrow> (string \<times> 'v) list \<Rightarrow> (string \<times> unit) list" where
  "markKeys fs [] = fs"
| "markKeys fs ((folder, v) # rest) = markKeys (AList.update folder () fs) rest"

text \<open>The last three lines of \<open>processUpdate\<close>: \<open>c.folders[folder] = struct{}{}\<close>.\<close>

definition mark ::
  "('f, 'b, 'd) folderSummaryService \<Rightarrow> string \<Rightarrow> ('f, 'b, 'd) folderSummaryService" where
  "mark c folder = c\<lparr>folders := AList.update folder () (folders c)\<rparr>"

text \<open>
  \<open>processUpdate\<close> returns the service and the folder it has sent on the channel
  \<open>immediate\<close>, if any. The send of the \<open>select\<close> with a \<open>default\<close> goes through
  exactly when the receiver is waiting: that is the argument \<open>ready\<close>.
\<close>

definition processUpdate ::
  "('f, 'b, 'd) folderSummaryService \<Rightarrow> bool \<Rightarrow> ('f, 'b) Event \<Rightarrow>
     panic + (('f, 'b, 'd) folderSummaryService \<times> string option)" where
  "processUpdate c ready ev =
    (case ev of Event ty payload \<Rightarrow>
      (case ty of
         DeviceConnected \<Rightarrow>
           (case payload of
              MapStringString data \<Rightarrow>
                (let deviceID = DeviceIDFromString (pkgs c) (index_string data ''id'')
                 in Inr (c\<lparr>folders := markFolders (folders c) (Folders (cfg c)) deviceID\<rparr>,
                         None))
            | _ \<Rightarrow> Inl Panic)
       | DownloadProgress \<Rightarrow>
           (case payload of
              MapStringProgress data \<Rightarrow>
                Inr (c\<lparr>folders := markKeys (folders c) data\<rparr>, None)
            | _ \<Rightarrow> Inl Panic)
       | StateChanged \<Rightarrow>
           (case payload of
              MapStringInterface data \<Rightarrow>
                (case assert_string (index_any data ''to'') of
                   Inl p \<Rightarrow> Inl p
                 | Inr to \<Rightarrow>
                     if to \<noteq> ''idle'' then Inr (c, None)
                     else
                      (case assert_string (index_any data ''from'') of
                         Inl p \<Rightarrow> Inl p
                       | Inr from \<Rightarrow>
                           if from \<noteq> ''syncing'' \<and> from \<noteq> ''sync-preparing''
                           then Inr (c, None)
                           else
                            (case assert_string (index_any data ''folder'') of
                               Inl p \<Rightarrow> Inl p
                             | Inr folder \<Rightarrow>
                                 if ready
                                 then Inr (c\<lparr>folders := AList.delete folder (folders c)\<rparr>,
                                           Some folder)
                                 else Inr (mark c folder, None))))
            | _ \<Rightarrow> Inl Panic)
       | _ \<Rightarrow>
           (case payload of
              MapStringInterface data \<Rightarrow>
                (case assert_string (index_any data ''folder'') of
                   Inl p \<Rightarrow> Inl p
                 | Inr folder \<Rightarrow> Inr (mark c folder, None))
            | _ \<Rightarrow> Inl Panic)))"

subsection \<open>foldersToHandle\<close>

text \<open>
  The loop \<open>for folder := range c.folders\<close>: every folder it visits is appended to
  \<open>res\<close> and deleted from the map. It returns \<open>res\<close> and what is left of the map.
\<close>

function rangeFolders ::
  "(string \<times> unit) list \<Rightarrow> string list \<Rightarrow> string list \<times> (string \<times> unit) list" where
  "rangeFolders [] res = (res, [])"
| "rangeFolders ((folder, u) # m) res = rangeFolders (AList.delete folder m) (res @ [folder])"
  by pat_completeness auto
termination
  by (relation "measure (\<lambda>(m, res). length m)")
     (simp_all add: less_Suc_eq_le length_delete_le)

text \<open>\<open>now\<close> is the reading of the clock in \<open>time.Since(last)\<close>.\<close>

definition foldersToHandle ::
  "('f, 'b, 'd) folderSummaryService \<Rightarrow> Time \<Rightarrow>
     string list \<times> ('f, 'b, 'd) folderSummaryService" where
  "foldersToHandle c now =
     (let last = lastEventReq c in
      if minSummaryInterval <s Since now last then ([], c)
      else (case rangeFolders (folders c) [] of (res, m) \<Rightarrow> (res, c\<lparr>folders := m\<rparr>)))"

subsection \<open>sendSummary\<close>

text \<open>
  The loop over the devices of the folder, with the events it logs. \<open>m[k]\<close> on the map
  of the folders gives the zero configuration, without devices, for a missing key.
\<close>

fun sendCompletions ::
  "('f, 'b, 'd) folderSummaryService \<Rightarrow> string \<Rightarrow> 'd FolderDeviceConfiguration list \<Rightarrow>
     ('f, 'b) Event list" where
  "sendCompletions c folder [] = []"
| "sendCompletions c folder (devCfg # rest) =
     (if DeviceID devCfg = id_self c then sendCompletions c folder rest
      else if \<not> Connection (model c) (DeviceID devCfg) then sendCompletions c folder rest
      else
       (let comp = Completion (model c) (DeviceID devCfg) folder;
            comp = AList.update ''folder'' (GoString folder) comp;
            comp = AList.update ''device''
                     (GoString (String (pkgs c) (DeviceID devCfg))) comp
        in Event FolderCompletion (MapStringInterface comp)
             # sendCompletions c folder rest))"

definition index_folder ::
  "(string \<times> 'd FolderConfiguration) list \<Rightarrow> string \<Rightarrow> 'd FolderDeviceConfiguration list" where
  "index_folder m k = (case map_of m k of None \<Rightarrow> [] | Some fcfg \<Rightarrow> Devices fcfg)"

definition sendSummary ::
  "('f::len word, 'b::len word, 'd) folderSummaryService \<Rightarrow> string \<Rightarrow>
     ('f word, 'b word) Event list" where
  "sendSummary c folder =
     (case Summary c folder of
        Inl err \<Rightarrow> []
      | Inr data \<Rightarrow>
          Event FolderSummary
            (MapStringInterface
               [(''folder'', GoString folder), (''summary'', MapStringInterface data)])
          # sendCompletions c folder (index_folder (Folders (cfg c)) folder))"

subsection \<open>calculateSummaries\<close>

text \<open>The loop \<open>for _, folder := range c.foldersToHandle()\<close>.\<close>

fun sendSummaries ::
  "('f::len word, 'b::len word, 'd) folderSummaryService \<Rightarrow> string list \<Rightarrow>
     ('f word, 'b word) Event list" where
  "sendSummaries c [] = []"
| "sendSummaries c (folder # rest) = sendSummary c folder @ sendSummaries c rest"

text \<open>
  The case \<open><-pump.C\<close> of the \<open>select\<close>, with the four readings of the clock it takes:
  \<open>t0\<close> in \<open>time.Now()\<close>, \<open>tc\<close> in \<open>foldersToHandle\<close>, \<open>t1\<close> in
  \<open>time.Since(t0)\<close> and \<open>tr\<close> in \<open>pump.Reset\<close>. It returns the service, the events
  it has logged and the time at which the timer fires next.
\<close>

definition pumpCase ::
  "('f::len word, 'b::len word, 'd) folderSummaryService \<Rightarrow> Time \<Rightarrow> Time \<Rightarrow> Time \<Rightarrow> Time \<Rightarrow>
     ('f word, 'b word, 'd) folderSummaryService \<times> ('f word, 'b word) Event list \<times> Time" where
  "pumpCase c t0 tc t1 tr =
     (case foldersToHandle c tc of (fs, c') \<Rightarrow>
       (let evs = sendSummaries c' fs;
            wait = 2 * Since t1 t0 + pumpInterval
        in (c', evs, Reset tr wait)))"

text \<open>What the \<open>select\<close> of \<open>calculateSummaries\<close> takes in one round of its loop.\<close>

datatype selected = PumpC Time Time Time Time | Immediate string | Done

text \<open>
  The loop of \<open>calculateSummaries\<close> over the rounds of its \<open>select\<close>, from the service
  and the time at which the timer fires; it ends with \<open>Done\<close>, and waits when the list
  is used up.
\<close>

fun calculateSummariesLoop ::
  "('f::len word, 'b::len word, 'd) folderSummaryService \<Rightarrow> Time \<Rightarrow> selected list \<Rightarrow>
     ('f word, 'b word, 'd) folderSummaryService \<times> ('f word, 'b word) Event list \<times> Time" where
  "calculateSummariesLoop c pump [] = (c, [], pump)"
| "calculateSummariesLoop c pump (Done # rest) = (c, [], pump)"
| "calculateSummariesLoop c pump (Immediate folder # rest) =
     (case calculateSummariesLoop c pump rest of (c', evs, pump') \<Rightarrow>
        (c', sendSummary c folder @ evs, pump'))"
| "calculateSummariesLoop c pump (PumpC t0 tc t1 tr # rest) =
     (case pumpCase c t0 tc t1 tr of (c1, evs1, pump1) \<Rightarrow>
       (case calculateSummariesLoop c1 pump1 rest of (c', evs, pump') \<Rightarrow>
          (c', evs1 @ evs, pump')))"

text \<open>\<open>start\<close> is the reading of the clock in \<open>time.NewTimer(pumpInterval)\<close>.\<close>

definition calculateSummaries ::
  "('f::len word, 'b::len word, 'd) folderSummaryService \<Rightarrow> Time \<Rightarrow> selected list \<Rightarrow>
     ('f word, 'b word, 'd) folderSummaryService \<times> ('f word, 'b word) Event list \<times> Time" where
  "calculateSummaries c start sel = calculateSummariesLoop c (Reset start pumpInterval) sel"

subsection \<open>An example service\<close>

text \<open>
  A service with 32-bit item counts, 64-bit byte counts and strings for device
  identifiers. Its folder \<open>docs\<close> ignores deletes and is shared with the devices
  \<open>A\<close>, \<open>C\<close>, \<open>self\<close> and \<open>B\<close>, of which \<open>C\<close> is not connected. The database
  needs 100 bytes and 7 deletes, 150 bytes of the pull are completed, the folder is
  paused, and the state query fails.
\<close>

definition example_counts :: "32 word \<Rightarrow> 64 word \<Rightarrow> (32 word, 64 word) Counts" where
  "example_counts n b =
     \<lparr>Files = n, Directories = 1, Symlinks = 0, Deleted = 7, Bytes = b\<rparr>"

definition example_snapshot :: "(32 word, 64 word, string) Snapshot" where
  "example_snapshot =
     \<lparr>GlobalSize = example_counts 10 1000, LocalSize = example_counts 8 900,
      NeedSize = example_counts 2 100, ReceiveOnlyChangedSize = example_counts 0 0,
      Sequence = (\<lambda>d. 21)\<rparr>"

definition example_model :: "(32 word, 64 word, string) Model" where
  "example_model =
     \<lparr>DBSnapshot = (\<lambda>folder. Inr example_snapshot),
      FolderErrors = (\<lambda>folder. ([], Some ErrFolderPaused)),
      FolderProgressBytesCompleted = (\<lambda>folder. 150),
      State = (\<lambda>folder. (''unknown'', 0, Some (OtherError ''no such folder''))),
      GetIgnores = (\<lambda>folder. ([''// temporary files'', ''*.tmp''], [], None)),
      WatchError = (\<lambda>folder. None),
      Connection = (\<lambda>device. device \<noteq> ''C''),
      Completion = (\<lambda>device folder. [(''completion'', GoInt 100)])\<rparr>"

definition example_folder :: "string FolderConfiguration" where
  "example_folder =
     \<lparr>ID = ''docs'', Type = FolderTypeSendReceive,
      Devices = [\<lparr>DeviceID = ''A''\<rparr>, \<lparr>DeviceID = ''C''\<rparr>,
                 \<lparr>DeviceID = ''self''\<rparr>, \<lparr>DeviceID = ''B''\<rparr>],
      IgnoreDelete = True\<rparr>"

definition example_cfg :: "string Wrapper" where
  "example_cfg =
     \<lparr>Folder = (\<lambda>folder. if folder = ''docs'' then Some example_folder else None),
      Folders = [(''docs'', example_folder)]\<rparr>"

definition example_pkgs :: "(32 word, 64 word, string) packages" where
  "example_pkgs =
     \<lparr>TotalItems = (\<lambda>n. Files n + Directories n + Symlinks n + Deleted n),
      Error = (\<lambda>e. case e of
                 ErrFolderPaused \<Rightarrow> ''folder is paused''
               | errFolderNotRunning \<Rightarrow> ''folder is not running''
               | OtherError s \<Rightarrow> s),
      LocalDeviceID = ''local'', GlobalDeviceID = ''global'',
      DeviceIDFromString = (\<lambda>s. s), String = (\<lambda>device. device)\<rparr>"

definition example_service :: "(32 word, 64 word, string) folderSummaryService" where
  "example_service =
     \<lparr>pkgs = example_pkgs, cfg = example_cfg, model = example_model, id_self = ''self'',
      folders = [(''docs'', ())], lastEventReq = 0\<rparr>"

section \<open>Properties\<close>

subsection \<open>Summary, part by part\<close>

lemma Summary_parts:
  "Summary c folder =
    (case DBSnapshot (model c) folder of
       Inl err \<Rightarrow> Inl err
     | Inr snap \<Rightarrow>
        (case FolderErrors (model c) folder of (errors, err) \<Rightarrow>
          if err \<noteq> None \<and> err \<noteq> Some ErrFolderPaused \<and> err \<noteq> Some errFolderNotRunning
          then Inl (the err)
          else
           (let res = [];
                res = AList.update ''errors'' (GoInt (int (length errors))) res;
                res = AList.update ''pullErrors'' (GoInt (int (length errors))) res;
                res = AList.update ''invalid'' (GoString '''') res;

                global = GlobalSize snap;
                res = AList.update ''globalFiles'' (GoCount (Files global)) res;
                res = AList.update ''globalDirectories'' (GoCount (Directories global)) res;
                res = AList.update ''globalSymlinks'' (GoCount (Symlinks global)) res;
                res = AList.update ''globalDeleted'' (GoCount (Deleted global)) res;
                res = AList.update ''globalBytes'' (GoSize (Bytes global)) res;
                res = AList.update ''globalTotalItems''
                        (GoCount (TotalItems (pkgs c) global)) res;

                local = LocalSize snap;
                res = AList.update ''localFiles'' (GoCount (Files local)) res;
                res = AList.update ''localDirectories'' (GoCount (Directories local)) res;
                res = AList.update ''localSymlinks'' (GoCount (Symlinks local)) res;
                res = AList.update ''localDeleted'' (GoCount (Deleted local)) res;
                res = AList.update ''localBytes'' (GoSize (Bytes local)) res;
                res = AList.update ''localTotalItems''
                        (GoCount (TotalItems (pkgs c) local)) res
            in summaryNeed c folder snap global res)))"
  unfolding Summary_def summaryNeed_def summaryConfig_def summaryState_def summaryIgnores_def
  by (rule refl)

lemma map_of_ignorePatternsLoop:
  "k \<noteq> ''ignorePatterns'' \<Longrightarrow> map_of (ignorePatternsLoop res ls) k = map_of res k"
  by (induction ls) (simp_all add: update_conv')

lemma summaryIgnores_frame:
  "\<exists>r. summaryIgnores c folder res = Inr r \<and>
     (\<forall>k. k \<noteq> ''ignorePatterns'' \<longrightarrow> k \<noteq> ''watchError'' \<longrightarrow> map_of r k = map_of res k)"
  by (simp add: summaryIgnores_def Let_def update_conv' map_of_ignorePatternsLoop
      split: prod.split option.split)

lemma summaryState_frame:
  "\<exists>r. summaryState c folder snap res = Inr r \<and>
     (\<forall>k. k \<notin> {''state'', ''stateChanged'', ''error'', ''version'', ''sequence'',
                ''ignorePatterns'', ''watchError''} \<longrightarrow> map_of r k = map_of res k) \<and>
     (\<forall>e. snd (snd (State (model c) folder)) = Some e \<longrightarrow>
          map_of r ''error'' = Some (GoString (Error (pkgs c) e)))"
proof -
  obtain st t err where s: "State (model c) folder = (st, t, err)"
    by (cases "State (model c) folder") auto
  define res1 where "res1 = AList.update ''sequence''
      (GoSize (Sequence snap (LocalDeviceID (pkgs c)) + Sequence snap (GlobalDeviceID (pkgs c))))
      (AList.update ''version''
      (GoSize (Sequence snap (LocalDeviceID (pkgs c)) + Sequence snap (GlobalDeviceID (pkgs c))))
      (case err of Some e \<Rightarrow> AList.update ''error'' (GoString (Error (pkgs c) e))
           (AList.update ''stateChanged'' (GoTime t) (AList.update ''state'' (GoString st) res))
       | None \<Rightarrow> AList.update ''stateChanged'' (GoTime t) (AList.update ''state'' (GoString st) res)))"
  have eq: "summaryState c folder snap res = summaryIgnores c folder res1"
    by (simp add: summaryState_def s Let_def res1_def)
  obtain r where r: "summaryIgnores c folder res1 = Inr r"
    and fr: "\<And>k. k \<noteq> ''ignorePatterns'' \<Longrightarrow> k \<noteq> ''watchError'' \<Longrightarrow> map_of r k = map_of res1 k"
    using summaryIgnores_frame [of c folder res1] by blast
  have a: "\<forall>k. k \<notin> {''state'', ''stateChanged'', ''error'', ''version'', ''sequence'',
                ''ignorePatterns'', ''watchError''} \<longrightarrow> map_of r k = map_of res k"
    by (simp add: fr res1_def update_conv' split: option.split)
  have b: "\<forall>e. err = Some e \<longrightarrow> map_of r ''error'' = Some (GoString (Error (pkgs c) e))"
    by (simp add: fr res1_def update_conv')
  show ?thesis using eq r a b s by simp
qed


lemma summaryConfig_facts:
  "\<exists>r. summaryConfig c folder snap global need res = Inr r \<and>
     map_of r ''inSyncFiles'' = Some (GoCount (Files global - Files need)) \<and>
     map_of r ''inSyncBytes'' = Some (GoSize (Bytes global - Bytes need)) \<and>
     map_of r ''needDeletes'' =
       (case Folder (cfg c) folder of
          Some fc \<Rightarrow> if IgnoreDelete fc then Some (GoInt 0) else map_of res ''needDeletes''
        | None \<Rightarrow> map_of res ''needDeletes'') \<and>
     (\<forall>k. k \<notin> {''needDeletes'', ''inSyncFiles'', ''inSyncBytes'',
                ''state'', ''stateChanged'', ''error'', ''version'', ''sequence'',
                ''ignorePatterns'', ''watchError''} \<longrightarrow>
          k \<notin> {''receiveOnlyChangedFiles'', ''receiveOnlyChangedDirectories'',
                ''receiveOnlyChangedSymlinks'', ''receiveOnlyChangedDeletes'',
                ''receiveOnlyChangedBytes'', ''receiveOnlyTotalItems''}
            \<or> Folder (cfg c) folder = None \<longrightarrow>
          map_of r k = map_of res k) \<and>
     (\<forall>e. snd (snd (State (model c) folder)) = Some e \<longrightarrow>
          map_of r ''error'' = Some (GoString (Error (pkgs c) e)))"
  for c :: "('f::len word, 'b::len word, 'd) folderSummaryService"
proof -
  define R1 where "R1 = (\<lambda>x :: (string \<times> ('f word, 'b word) any) list.
      case Folder (cfg c) folder of
        Some fc \<Rightarrow> if IgnoreDelete fc then AList.update ''needDeletes'' (GoInt 0) x else x
      | None \<Rightarrow> x)"
  define R2 where "R2 = (\<lambda>x :: (string \<times> ('f word, 'b word) any) list.
      case Folder (cfg c) folder of
        Some fc \<Rightarrow>
          if Type fc = FolderTypeReceiveOnly
          then AList.update ''receiveOnlyTotalItems''
                 (GoCount (TotalItems (pkgs c) (ReceiveOnlyChangedSize snap)))
              (AList.update ''receiveOnlyChangedBytes''
                 (GoSize (Bytes (ReceiveOnlyChangedSize snap)))
              (AList.update ''receiveOnlyChangedDeletes''
                 (GoCount (Deleted (ReceiveOnlyChangedSize snap)))
              (AList.update ''receiveOnlyChangedSymlinks''
                 (GoCount (Symlinks (ReceiveOnlyChangedSize snap)))
              (AList.update ''receiveOnlyChangedDirectories''
                 (GoCount (Directories (ReceiveOnlyChangedSize snap)))
              (AList.update ''receiveOnlyChangedFiles''
                 (GoCount (Files (ReceiveOnlyChangedSize snap))) x)))))
          else x
      | None \<Rightarrow> x)"
  define res1 where "res1 =
      AList.update ''inSyncBytes'' (GoSize (Bytes global - Bytes need))
        (AList.update ''inSyncFiles'' (GoCount (Files global - Files need)) (R2 (R1 res)))"
  have eq: "summaryConfig c folder snap global need res = summaryState c folder snap res1"
    unfolding summaryConfig_def res1_def R1_def R2_def Let_def by (rule refl)
  obtain r where r: "summaryState c folder snap res1 = Inr r"
    and fr: "\<And>k. k \<notin> {''state'', ''stateChanged'', ''error'', ''version'', ''sequence'',
                ''ignorePatterns'', ''watchError''} \<Longrightarrow> map_of r k = map_of res1 k"
    and er: "\<forall>e. snd (snd (State (model c) folder)) = Some e \<longrightarrow>
          map_of r ''error'' = Some (GoString (Error (pkgs c) e))"
    using summaryState_frame [of c folder snap res1] by blast
  have m1: "map_of (R1 x) k = map_of x k" if "k \<noteq> ''needDeletes''" for x k
    using that by (simp add: R1_def update_conv' split: option.split)
  have m1': "map_of (R1 x) ''needDeletes'' =
       (case Folder (cfg c) folder of
          Some fc \<Rightarrow> if IgnoreDelete fc then Some (GoInt 0) else map_of x ''needDeletes''
        | None \<Rightarrow> map_of x ''needDeletes'')" for x
    by (simp add: R1_def update_conv' split: option.split)
  have m2a: "map_of (R2 x) k = map_of x k"
    if "k \<notin> {''receiveOnlyChangedFiles'', ''receiveOnlyChangedDirectories'',
                ''receiveOnlyChangedSymlinks'', ''receiveOnlyChangedDeletes'',
                ''receiveOnlyChangedBytes'', ''receiveOnlyTotalItems''}" for x k
    using that by (simp add: R2_def update_conv' split: option.split)
  have m2b: "R2 x = x" if "Folder (cfg c) folder = None" for x
    using that by (simp add: R2_def)
  have m2: "map_of (R2 x) k = map_of x k"
    if "k \<notin> {''receiveOnlyChangedFiles'', ''receiveOnlyChangedDirectories'',
                ''receiveOnlyChangedSymlinks'', ''receiveOnlyChangedDeletes'',
                ''receiveOnlyChangedBytes'', ''receiveOnlyTotalItems''}
            \<or> Folder (cfg c) folder = None" for x k
    using that
  proof
    assume "k \<notin> {''receiveOnlyChangedFiles'', ''receiveOnlyChangedDirectories'',
                ''receiveOnlyChangedSymlinks'', ''receiveOnlyChangedDeletes'',
                ''receiveOnlyChangedBytes'', ''receiveOnlyTotalItems''}"
    then show ?thesis by (rule m2a)
  next
    assume "Folder (cfg c) folder = None"
    then show ?thesis by (simp only: m2b)
  qed
  have a: "map_of r ''inSyncFiles'' = Some (GoCount (Files global - Files need))"
    by (simp add: fr res1_def update_conv')
  have b: "map_of r ''inSyncBytes'' = Some (GoSize (Bytes global - Bytes need))"
    by (simp add: fr res1_def update_conv')
  have d: "map_of r ''needDeletes'' =
       (case Folder (cfg c) folder of
          Some fc \<Rightarrow> if IgnoreDelete fc then Some (GoInt 0) else map_of res ''needDeletes''
        | None \<Rightarrow> map_of res ''needDeletes'')"
    by (simp add: fr res1_def update_conv' m2 m1')
  have f: "map_of r k = map_of res k"
    if "k \<notin> {''needDeletes'', ''inSyncFiles'', ''inSyncBytes'',
                ''state'', ''stateChanged'', ''error'', ''version'', ''sequence'',
                ''ignorePatterns'', ''watchError''}"
     and "k \<notin> {''receiveOnlyChangedFiles'', ''receiveOnlyChangedDirectories'',
                ''receiveOnlyChangedSymlinks'', ''receiveOnlyChangedDeletes'',
                ''receiveOnlyChangedBytes'', ''receiveOnlyTotalItems''}
            \<or> Folder (cfg c) folder = None" for k
  proof -
    have "map_of r k = map_of res1 k" using that(1) by (intro fr) simp
    also have "\<dots> = map_of (R2 (R1 res)) k" using that(1) by (simp add: res1_def update_conv')
    also have "\<dots> = map_of (R1 res) k" using that(2) by (rule m2)
    also have "\<dots> = map_of res k" using that(1) by (intro m1) simp
    finally show ?thesis .
  qed
  show ?thesis
  proof (rule exI [of _ r], intro conjI allI impI)
    show "summaryConfig c folder snap global need res = Inr r"
      by (simp only: eq r)
    show "map_of r ''inSyncFiles'' = Some (GoCount (Files global - Files need))"
      by (rule a)
    show "map_of r ''inSyncBytes'' = Some (GoSize (Bytes global - Bytes need))"
      by (rule b)
    show "map_of r ''needDeletes'' =
       (case Folder (cfg c) folder of
          Some fc \<Rightarrow> if IgnoreDelete fc then Some (GoInt 0) else map_of res ''needDeletes''
        | None \<Rightarrow> map_of res ''needDeletes'')"
      by (rule d)
  next
    fix k
    assume "k \<notin> {''needDeletes'', ''inSyncFiles'', ''inSyncBytes'',
                ''state'', ''stateChanged'', ''error'', ''version'', ''sequence'',
                ''ignorePatterns'', ''watchError''}"
      and "k \<notin> {''receiveOnlyChangedFiles'', ''receiveOnlyChangedDirectories'',
                ''receiveOnlyChangedSymlinks'', ''receiveOnlyChangedDeletes'',
                ''receiveOnlyChangedBytes'', ''receiveOnlyTotalItems''}
            \<or> Folder (cfg c) folder = None"
    then show "map_of r k = map_of res k" by (rule f)
  next
    fix e
    assume "snd (snd (State (model c) folder)) = Some e"
    with er show "map_of r ''error'' = Some (GoString (Error (pkgs c) e))"
      by (simp only:)
  qed
qed


lemma summaryNeed_facts:
  fixes c :: "('f::len word, 'b::len word, 'd) folderSummaryService"
    and folder :: string and snap :: "('f word, 'b word, 'd) Snapshot"
  defines "nb \<equiv> Bytes (NeedSize snap) - FolderProgressBytesCompleted (model c) folder"
  shows "\<exists>r. summaryNeed c folder snap global res = Inr r \<and>
     map_of r ''needBytes'' = Some (GoSize (if nb <s 0 then 0 else nb)) \<and>
     map_of r ''needDeletes'' =
       (case Folder (cfg c) folder of
          Some fc \<Rightarrow> if IgnoreDelete fc then Some (GoInt 0)
                     else Some (GoCount (Deleted (NeedSize snap)))
        | None \<Rightarrow> Some (GoCount (Deleted (NeedSize snap)))) \<and>
     map_of r ''inSyncFiles'' = Some (GoCount (Files global - Files (NeedSize snap))) \<and>
     map_of r ''inSyncBytes'' = Some (GoSize (Bytes global - (if nb <s 0 then 0 else nb))) \<and>
     (\<forall>k. k \<in> {''receiveOnlyChangedFiles'', ''receiveOnlyChangedDirectories'',
                ''receiveOnlyChangedSymlinks'', ''receiveOnlyChangedDeletes'',
                ''receiveOnlyChangedBytes'', ''receiveOnlyTotalItems''} \<longrightarrow>
          Folder (cfg c) folder = None \<longrightarrow> map_of r k = map_of res k) \<and>
     (\<forall>e. snd (snd (State (model c) folder)) = Some e \<longrightarrow>
          map_of r ''error'' = Some (GoString (Error (pkgs c) e)))"
proof -
  define need where "need =
      (if Bytes ((NeedSize snap)\<lparr>Bytes := nb\<rparr>) <s 0
       then (NeedSize snap)\<lparr>Bytes := nb\<rparr>\<lparr>Bytes := 0\<rparr>
       else (NeedSize snap)\<lparr>Bytes := nb\<rparr>)"
  define res1 where "res1 =
      AList.update ''needTotalItems'' (GoCount (TotalItems (pkgs c) need))
     (AList.update ''needBytes'' (GoSize (Bytes need))
     (AList.update ''needDeletes'' (GoCount (Deleted need))
     (AList.update ''needSymlinks'' (GoCount (Symlinks need))
     (AList.update ''needDirectories'' (GoCount (Directories need))
     (AList.update ''needFiles'' (GoCount (Files need)) res)))))"
  have eq: "summaryNeed c folder snap global res = summaryConfig c folder snap global need res1"
    unfolding summaryNeed_def res1_def need_def nb_def Let_def by (rule refl)
  have nB: "Bytes need = (if nb <s 0 then 0 else nb)"
    and nF: "Files need = Files (NeedSize snap)"
    and nD: "Deleted need = Deleted (NeedSize snap)"
    by (simp_all add: need_def)
  obtain r where r: "summaryConfig c folder snap global need res1 = Inr r"
    and f1: "map_of r ''inSyncFiles'' = Some (GoCount (Files global - Files need))"
    and f2: "map_of r ''inSyncBytes'' = Some (GoSize (Bytes global - Bytes need))"
    and f3: "map_of r ''needDeletes'' =
       (case Folder (cfg c) folder of
          Some fc \<Rightarrow> if IgnoreDelete fc then Some (GoInt 0) else map_of res1 ''needDeletes''
        | None \<Rightarrow> map_of res1 ''needDeletes'')"
    and fr: "\<And>k. k \<notin> {''needDeletes'', ''inSyncFiles'', ''inSyncBytes'',
                ''state'', ''stateChanged'', ''error'', ''version'', ''sequence'',
                ''ignorePatterns'', ''watchError''} \<Longrightarrow>
          k \<notin> {''receiveOnlyChangedFiles'', ''receiveOnlyChangedDirectories'',
                ''receiveOnlyChangedSymlinks'', ''receiveOnlyChangedDeletes'',
                ''receiveOnlyChangedBytes'', ''receiveOnlyTotalItems''}
            \<or> Folder (cfg c) folder = None \<Longrightarrow>
          map_of r k = map_of res1 k"
    and er: "\<forall>e. snd (snd (State (model c) folder)) = Some e \<longrightarrow>
          map_of r ''error'' = Some (GoString (Error (pkgs c) e))"
    using summaryConfig_facts [of c folder snap global need res1] by (elim exE conjE) simp
  have d1: "map_of res1 ''needDeletes'' = Some (GoCount (Deleted (NeedSize snap)))"
    by (simp add: res1_def update_conv' nD)
  have a: "map_of r ''needBytes'' = Some (GoSize (if nb <s 0 then 0 else nb))"
  proof -
    have "map_of r ''needBytes'' = map_of res1 ''needBytes''"
      by (rule fr) simp_all
    also have "\<dots> = Some (GoSize (Bytes need))"
      by (simp add: res1_def update_conv')
    finally show ?thesis by (simp only: nB)
  qed
  have ro: "map_of r k = map_of res k"
    if "k \<in> {''receiveOnlyChangedFiles'', ''receiveOnlyChangedDirectories'',
                ''receiveOnlyChangedSymlinks'', ''receiveOnlyChangedDeletes'',
                ''receiveOnlyChangedBytes'', ''receiveOnlyTotalItems''}"
      and "Folder (cfg c) folder = None" for k
  proof -
    have "map_of r k = map_of res1 k"
      using that(1) by (intro fr disjI2 that(2)) auto
    also have "\<dots> = map_of res k"
      using that(1) by (auto simp add: res1_def update_conv')
    finally show ?thesis .
  qed
  show ?thesis
  proof (rule exI [of _ r], intro conjI allI impI)
    show "summaryNeed c folder snap global res = Inr r"
      by (simp only: eq r)
    show "map_of r ''needBytes'' = Some (GoSize (if nb <s 0 then 0 else nb))"
      by (rule a)
    show "map_of r ''needDeletes'' =
       (case Folder (cfg c) folder of
          Some fc \<Rightarrow> if IgnoreDelete fc then Some (GoInt 0)
                     else Some (GoCount (Deleted (NeedSize snap)))
        | None \<Rightarrow> Some (GoCount (Deleted (NeedSize snap))))"
      by (simp only: f3 d1)
    show "map_of r ''inSyncFiles'' = Some (GoCount (Files global - Files (NeedSize snap)))"
      by (simp only: f1 nF)
    show "map_of r ''inSyncBytes'' = Some (GoSize (Bytes global - (if nb <s 0 then 0 else nb)))"
      by (simp only: f2 nB)
  next
    fix k
    assume "k \<in> {''receiveOnlyChangedFiles'', ''receiveOnlyChangedDirectories'',
                ''receiveOnlyChangedSymlinks'', ''receiveOnlyChangedDeletes'',
                ''receiveOnlyChangedBytes'', ''receiveOnlyTotalItems''}"
      and "Folder (cfg c) folder = None"
    then show "map_of r k = map_of res k" by (rule ro)
  next
    fix e
    assume "snd (snd (State (model c) folder)) = Some e"
    with er show "map_of r ''error'' = Some (GoString (Error (pkgs c) e))"
      by (simp only:)
  qed
qed

lemma Summary_fails_snapshot:
  "DBSnapshot (model c) folder = Inl e \<Longrightarrow> Summary c folder = Inl e"
  by (simp only: Summary_parts sum.case)

lemma Summary_fails_errors:
  assumes "DBSnapshot (model c) folder = Inr snap"
    and "FolderErrors (model c) folder = (errors, Some e)"
    and "e \<noteq> ErrFolderPaused" and "e \<noteq> errFolderNotRunning"
  shows "Summary c folder = Inl e"
proof -
  have g: "Some e \<noteq> None \<and> Some e \<noteq> Some ErrFolderPaused \<and> Some e \<noteq> Some errFolderNotRunning"
    using assms(3,4) by simp
  show ?thesis
    by (simp only: Summary_parts assms(1,2) sum.case prod.case if_P [OF g] option.sel)
qed

lemma Summary_facts:
  fixes c :: "('f::len word, 'b::len word, 'd) folderSummaryService"
    and folder :: string and snap :: "('f word, 'b word, 'd) Snapshot"
  defines "nb \<equiv> Bytes (NeedSize snap) - FolderProgressBytesCompleted (model c) folder"
  assumes db: "DBSnapshot (model c) folder = Inr snap"
    and fe: "FolderErrors (model c) folder = (errors, err)"
    and ok: "err = None \<or> err = Some ErrFolderPaused \<or> err = Some errFolderNotRunning"
  shows "\<exists>r. Summary c folder = Inr r \<and>
     map_of r ''needBytes'' = Some (GoSize (if nb <s 0 then 0 else nb)) \<and>
     map_of r ''needDeletes'' =
       (case Folder (cfg c) folder of
          Some fc \<Rightarrow> if IgnoreDelete fc then Some (GoInt 0)
                     else Some (GoCount (Deleted (NeedSize snap)))
        | None \<Rightarrow> Some (GoCount (Deleted (NeedSize snap)))) \<and>
     map_of r ''inSyncFiles'' =
       Some (GoCount (Files (GlobalSize snap) - Files (NeedSize snap))) \<and>
     map_of r ''inSyncBytes'' =
       Some (GoSize (Bytes (GlobalSize snap) - (if nb <s 0 then 0 else nb))) \<and>
     (\<forall>k. k \<in> {''receiveOnlyChangedFiles'', ''receiveOnlyChangedDirectories'',
                ''receiveOnlyChangedSymlinks'', ''receiveOnlyChangedDeletes'',
                ''receiveOnlyChangedBytes'', ''receiveOnlyTotalItems''} \<longrightarrow>
          Folder (cfg c) folder = None \<longrightarrow> map_of r k = None) \<and>
     (\<forall>e. snd (snd (State (model c) folder)) = Some e \<longrightarrow>
          map_of r ''error'' = Some (GoString (Error (pkgs c) e)))"
proof -
  define res0 :: "(string \<times> ('f word, 'b word) any) list" where "res0 =
     AList.update ''localTotalItems'' (GoCount (TotalItems (pkgs c) (LocalSize snap)))
    (AList.update ''localBytes'' (GoSize (Bytes (LocalSize snap)))
    (AList.update ''localDeleted'' (GoCount (Deleted (LocalSize snap)))
    (AList.update ''localSymlinks'' (GoCount (Symlinks (LocalSize snap)))
    (AList.update ''localDirectories'' (GoCount (Directories (LocalSize snap)))
    (AList.update ''localFiles'' (GoCount (Files (LocalSize snap)))
    (AList.update ''globalTotalItems'' (GoCount (TotalItems (pkgs c) (GlobalSize snap)))
    (AList.update ''globalBytes'' (GoSize (Bytes (GlobalSize snap)))
    (AList.update ''globalDeleted'' (GoCount (Deleted (GlobalSize snap)))
    (AList.update ''globalSymlinks'' (GoCount (Symlinks (GlobalSize snap)))
    (AList.update ''globalDirectories'' (GoCount (Directories (GlobalSize snap)))
    (AList.update ''globalFiles'' (GoCount (Files (GlobalSize snap)))
    (AList.update ''invalid'' (GoString '''')
    (AList.update ''pullErrors'' (GoInt (int (length errors)))
    (AList.update ''errors'' (GoInt (int (length errors))) []))))))))))))))"
  have guard: "\<not> (err \<noteq> None \<and> err \<noteq> Some ErrFolderPaused \<and> err \<noteq> Some errFolderNotRunning)"
    using ok by blast
  have eq: "Summary c folder = summaryNeed c folder snap (GlobalSize snap) res0"
    unfolding Summary_parts db fe sum.case prod.case if_not_P [OF guard] Let_def res0_def
    by (rule refl)
  have absent:
    "map_of res0 ''receiveOnlyChangedFiles'' = None"
    "map_of res0 ''receiveOnlyChangedDirectories'' = None"
    "map_of res0 ''receiveOnlyChangedSymlinks'' = None"
    "map_of res0 ''receiveOnlyChangedDeletes'' = None"
    "map_of res0 ''receiveOnlyChangedBytes'' = None"
    "map_of res0 ''receiveOnlyTotalItems'' = None"
    by (simp_all add: res0_def update_conv')
  obtain r where r: "summaryNeed c folder snap (GlobalSize snap) res0 = Inr r"
    and f1: "map_of r ''needBytes'' = Some (GoSize (if nb <s 0 then 0 else nb))"
    and f2: "map_of r ''needDeletes'' =
       (case Folder (cfg c) folder of
          Some fc \<Rightarrow> if IgnoreDelete fc then Some (GoInt 0)
                     else Some (GoCount (Deleted (NeedSize snap)))
        | None \<Rightarrow> Some (GoCount (Deleted (NeedSize snap))))"
    and f3: "map_of r ''inSyncFiles'' =
       Some (GoCount (Files (GlobalSize snap) - Files (NeedSize snap)))"
    and f4: "map_of r ''inSyncBytes'' =
       Some (GoSize (Bytes (GlobalSize snap) - (if nb <s 0 then 0 else nb)))"
    and f5: "\<And>k. k \<in> {''receiveOnlyChangedFiles'', ''receiveOnlyChangedDirectories'',
                ''receiveOnlyChangedSymlinks'', ''receiveOnlyChangedDeletes'',
                ''receiveOnlyChangedBytes'', ''receiveOnlyTotalItems''} \<Longrightarrow>
          Folder (cfg c) folder = None \<Longrightarrow> map_of r k = map_of res0 k"
    and f6: "\<forall>e. snd (snd (State (model c) folder)) = Some e \<longrightarrow>
          map_of r ''error'' = Some (GoString (Error (pkgs c) e))"
    using summaryNeed_facts [of c folder snap "GlobalSize snap" res0]
    unfolding nb_def by (elim exE conjE) simp
  show ?thesis
  proof (rule exI [of _ r], intro conjI allI impI)
    show "Summary c folder = Inr r"
      by (simp only: eq r)
    show "map_of r ''needBytes'' = Some (GoSize (if nb <s 0 then 0 else nb))"
      by (rule f1)
    show "map_of r ''needDeletes'' =
       (case Folder (cfg c) folder of
          Some fc \<Rightarrow> if IgnoreDelete fc then Some (GoInt 0)
                     else Some (GoCount (Deleted (NeedSize snap)))
        | None \<Rightarrow> Some (GoCount (Deleted (NeedSize snap))))"
      by (rule f2)
    show "map_of r ''inSyncFiles'' =
       Some (GoCount (Files (GlobalSize snap) - Files (NeedSize snap)))"
      by (rule f3)
    show "map_of r ''inSyncBytes'' =
       Some (GoSize (Bytes (GlobalSize snap) - (if nb <s 0 then 0 else nb)))"
      by (rule f4)
  next
    fix k
    assume k: "k \<in> {''receiveOnlyChangedFiles'', ''receiveOnlyChangedDirectories'',
                ''receiveOnlyChangedSymlinks'', ''receiveOnlyChangedDeletes'',
                ''receiveOnlyChangedBytes'', ''receiveOnlyTotalItems''}"
      and n: "Folder (cfg c) folder = None"
    have "map_of r k = map_of res0 k" using k n by (rule f5)
    also have "\<dots> = None"
      using k by (elim insertE emptyE) (simp_all only: absent)
    finally show "map_of r k = None" .
  next
    fix e
    assume "snd (snd (State (model c) folder)) = Some e"
    with f6 show "map_of r ''error'' = Some (GoString (Error (pkgs c) e))"
      by (simp only:)
  qed
qed

lemma Summary_InrD:
  assumes "Summary c folder = Inr res"
  shows "\<exists>snap errors err. DBSnapshot (model c) folder = Inr snap \<and>
     FolderErrors (model c) folder = (errors, err) \<and>
     (err = None \<or> err = Some ErrFolderPaused \<or> err = Some errFolderNotRunning)"
proof (cases "DBSnapshot (model c) folder")
  case (Inl e)
  then have "Summary c folder = Inl e" by (rule Summary_fails_snapshot)
  with assms show ?thesis by simp
next
  case (Inr snap)
  obtain errors err where fe: "FolderErrors (model c) folder = (errors, err)"
    by (cases "FolderErrors (model c) folder") auto
  show ?thesis
  proof (cases err)
    case None
    with Inr fe show ?thesis by simp
  next
    case (Some e)
    show ?thesis
    proof (cases "e \<noteq> ErrFolderPaused \<and> e \<noteq> errFolderNotRunning")
      case True
      with Inr fe Some have "Summary c folder = Inl e"
        by (intro Summary_fails_errors [of c folder snap errors e]) simp_all
      with assms show ?thesis by simp
    next
      case False
      with Inr fe Some show ?thesis by auto
    qed
  qed
qed

lemma example_snapshot_ok: "DBSnapshot (model example_service) folder = Inr example_snapshot"
  by (simp add: example_service_def example_model_def)

lemma example_errors_ok:
  "FolderErrors (model example_service) folder = ([], Some ErrFolderPaused)"
  by (simp add: example_service_def example_model_def)

lemma example_Summary: "\<exists>res. Summary example_service folder = Inr res"
  using Summary_facts [OF example_snapshot_ok example_errors_ok] by blast

lemma Summary_Inr_facts:
  fixes c :: "('f::len word, 'b::len word, 'd) folderSummaryService"
    and folder :: string and snap :: "('f word, 'b word, 'd) Snapshot"
  defines "nb \<equiv> Bytes (NeedSize snap) - FolderProgressBytesCompleted (model c) folder"
  assumes s: "Summary c folder = Inr res"
    and db: "DBSnapshot (model c) folder = Inr snap"
  shows "map_of res ''needBytes'' = Some (GoSize (if nb <s 0 then 0 else nb))"
    and "map_of res ''needDeletes'' =
       (case Folder (cfg c) folder of
          Some fc \<Rightarrow> if IgnoreDelete fc then Some (GoInt 0)
                     else Some (GoCount (Deleted (NeedSize snap)))
        | None \<Rightarrow> Some (GoCount (Deleted (NeedSize snap))))"
    and "map_of res ''inSyncFiles'' =
       Some (GoCount (Files (GlobalSize snap) - Files (NeedSize snap)))"
    and "map_of res ''inSyncBytes'' =
       Some (GoSize (Bytes (GlobalSize snap) - (if nb <s 0 then 0 else nb)))"
    and "\<forall>k. k \<in> {''receiveOnlyChangedFiles'', ''receiveOnlyChangedDirectories'',
                ''receiveOnlyChangedSymlinks'', ''receiveOnlyChangedDeletes'',
                ''receiveOnlyChangedBytes'', ''receiveOnlyTotalItems''} \<longrightarrow>
          Folder (cfg c) folder = None \<longrightarrow> map_of res k = None"
    and "\<forall>e. snd (snd (State (model c) folder)) = Some e \<longrightarrow>
          map_of res ''error'' = Some (GoString (Error (pkgs c) e))"
proof -
  obtain errors err where fe: "FolderErrors (model c) folder = (errors, err)"
    and ok: "err = None \<or> err = Some ErrFolderPaused \<or> err = Some errFolderNotRunning"
    using Summary_InrD [OF s] by blast
  obtain r where r: "Summary c folder = Inr r"
    and f1: "map_of r ''needBytes'' = Some (GoSize (if nb <s 0 then 0 else nb))"
    and f2: "map_of r ''needDeletes'' =
       (case Folder (cfg c) folder of
          Some fc \<Rightarrow> if IgnoreDelete fc then Some (GoInt 0)
                     else Some (GoCount (Deleted (NeedSize snap)))
        | None \<Rightarrow> Some (GoCount (Deleted (NeedSize snap))))"
    and f3: "map_of r ''inSyncFiles'' =
       Some (GoCount (Files (GlobalSize snap) - Files (NeedSize snap)))"
    and f4: "map_of r ''inSyncBytes'' =
       Some (GoSize (Bytes (GlobalSize snap) - (if nb <s 0 then 0 else nb)))"
    and f5: "\<forall>k. k \<in> {''receiveOnlyChangedFiles'', ''receiveOnlyChangedDirectories'',
                ''receiveOnlyChangedSymlinks'', ''receiveOnlyChangedDeletes'',
                ''receiveOnlyChangedBytes'', ''receiveOnlyTotalItems''} \<longrightarrow>
          Folder (cfg c) folder = None \<longrightarrow> map_of r k = None"
    and f6: "\<forall>e. snd (snd (State (model c) folder)) = Some e \<longrightarrow>
          map_of r ''error'' = Some (GoString (Error (pkgs c) e))"
    using Summary_facts [OF db fe ok] unfolding nb_def by (elim exE conjE) simp
  from r s have e: "r = res" by simp
  show "map_of res ''needBytes'' = Some (GoSize (if nb <s 0 then 0 else nb))"
    using f1 unfolding e .
  show "map_of res ''needDeletes'' =
       (case Folder (cfg c) folder of
          Some fc \<Rightarrow> if IgnoreDelete fc then Some (GoInt 0)
                     else Some (GoCount (Deleted (NeedSize snap)))
        | None \<Rightarrow> Some (GoCount (Deleted (NeedSize snap))))"
    using f2 unfolding e .
  show "map_of res ''inSyncFiles'' =
       Some (GoCount (Files (GlobalSize snap) - Files (NeedSize snap)))"
    using f3 unfolding e .
  show "map_of res ''inSyncBytes'' =
       Some (GoSize (Bytes (GlobalSize snap) - (if nb <s 0 then 0 else nb)))"
    using f4 unfolding e .
  show "\<forall>k. k \<in> {''receiveOnlyChangedFiles'', ''receiveOnlyChangedDirectories'',
                ''receiveOnlyChangedSymlinks'', ''receiveOnlyChangedDeletes'',
                ''receiveOnlyChangedBytes'', ''receiveOnlyTotalItems''} \<longrightarrow>
          Folder (cfg c) folder = None \<longrightarrow> map_of res k = None"
    using f5 unfolding e .
  show "\<forall>e. snd (snd (State (model c) folder)) = Some e \<longrightarrow>
          map_of res ''error'' = Some (GoString (Error (pkgs c) e))"
    using f6 unfolding e .
qed

lemma sint_clamp:
  fixes a b :: "'b::len word"
  defines "v \<equiv> (if a - b <s 0 then 0 else a - b)"
  shows "0 \<le> sint v"
    and "- (2 ^ (LENGTH('b) - 1)) \<le> sint a - sint b \<Longrightarrow> sint a - sint b < 2 ^ (LENGTH('b) - 1) \<Longrightarrow>
         sint v = max 0 (sint a - sint b)"
proof -
  show "0 \<le> sint v"
    by (simp add: v_def word_sless_alt)
  assume "- (2 ^ (LENGTH('b) - 1)) \<le> sint a - sint b" and "sint a - sint b < 2 ^ (LENGTH('b) - 1)"
  then have "sint (a - b) = sint a - sint b"
    by (simp add: sint_word_diff signed_take_bit_int_eq_self)
  then show "sint v = max 0 (sint a - sint b)"
    by (simp add: v_def word_sless_alt)
qed

subsection \<open>The needed bytes\<close>

text \<open>
  Claim C3. In a summary that \<open>Summary\<close> returns, \<open>needBytes\<close> is the needed bytes
  of the snapshot minus the completed bytes of the pull, and zero when that is negative.
  The subtraction is the one of the machine integers; the value is never negative, and it
  is the mathematical difference, cut off at zero, whenever that difference fits into
  the integer type (as it does for two byte counts that are not negative).
\<close>

theorem Summary_needBytes:
  fixes c :: "('f::len word, 'b::len word, 'd) folderSummaryService"
    and folder :: string and snap :: "('f word, 'b word, 'd) Snapshot"
  defines "need \<equiv> Bytes (NeedSize snap)"
    and "completed \<equiv> FolderProgressBytesCompleted (model c) folder"
  assumes "Summary c folder = Inr res" and "DBSnapshot (model c) folder = Inr snap"
  shows "\<exists>v. map_of res ''needBytes'' = Some (GoSize v) \<and>
           v = (if need - completed <s 0 then 0 else need - completed) \<and>
           0 \<le> sint v \<and>
           (- (2 ^ (LENGTH('b) - 1)) \<le> sint need - sint completed \<and>
            sint need - sint completed < 2 ^ (LENGTH('b) - 1) \<longrightarrow>
              sint v = max 0 (sint need - sint completed))"
  using Summary_Inr_facts(1) [OF assms(3,4)] sint_clamp [of need completed]
  unfolding need_def completed_def by simp

theorem Summary_needBytes_witness:
  "\<exists>res. Summary example_service ''docs'' = Inr res \<and>
     Bytes (NeedSize example_snapshot) = 100 \<and>
     FolderProgressBytesCompleted (model example_service) ''docs'' = 150 \<and>
     map_of res ''needBytes'' = Some (GoSize 0)"
proof -
  obtain res where r: "Summary example_service ''docs'' = Inr res"
    using example_Summary by blast
  have "map_of res ''needBytes'' = Some (GoSize 0)"
    using Summary_needBytes [OF r example_snapshot_ok]
    by (simp add: example_snapshot_def example_counts_def example_service_def example_model_def
        word_sless_alt)
  with r show ?thesis
    by (simp add: example_snapshot_def example_counts_def example_service_def example_model_def)
qed

subsection \<open>Ignored deletes\<close>

text \<open>
  Claim C6. When the configuration of the folder exists and sets \<open>IgnoreDelete\<close>, the
  entry \<open>needDeletes\<close> of the summary is the integer 0, whatever the snapshot needs
  to delete.
\<close>

theorem Summary_needDeletes_ignored:
  assumes "Summary c folder = Inr res"
    and "Folder (cfg c) folder = Some fcfg" and "IgnoreDelete fcfg"
  shows "map_of res ''needDeletes'' = Some (GoInt 0)"
proof -
  obtain snap where db: "DBSnapshot (model c) folder = Inr snap"
    using Summary_InrD [OF assms(1)] by blast
  show ?thesis
    using Summary_Inr_facts(2) [OF assms(1) db] assms(2,3) by simp
qed

theorem Summary_needDeletes_ignored_witness:
  "\<exists>res. Summary example_service ''docs'' = Inr res \<and>
     Folder (cfg example_service) ''docs'' = Some example_folder \<and>
     IgnoreDelete example_folder \<and>
     Deleted (NeedSize example_snapshot) = 7 \<and>
     map_of res ''needDeletes'' = Some (GoInt 0)"
proof -
  obtain res where r: "Summary example_service ''docs'' = Inr res"
    using example_Summary by blast
  have f: "Folder (cfg example_service) ''docs'' = Some example_folder"
    by (simp add: example_service_def example_cfg_def)
  have i: "IgnoreDelete example_folder"
    by (simp add: example_folder_def)
  have "map_of res ''needDeletes'' = Some (GoInt 0)"
    using Summary_needDeletes_ignored [OF r f i] .
  with r f i show ?thesis
    by (simp add: example_snapshot_def example_counts_def)
qed

lemma sint_diff_nonneg:
  fixes a b :: "'a::len word"
  assumes "0 \<le> sint a" and "0 \<le> sint b"
  shows "sint (a - b) = sint a - sint b"
proof -
  have "sint a < 2 ^ (LENGTH('a) - 1)" and "sint b < 2 ^ (LENGTH('a) - 1)"
    by (rule sint_lt)+
  with assms have "- (2 ^ (LENGTH('a) - 1)) \<le> sint a - sint b"
    and "sint a - sint b < 2 ^ (LENGTH('a) - 1)"
    by linarith+
  then show ?thesis
    by (simp add: sint_word_diff signed_take_bit_int_eq_self)
qed

subsection \<open>The items and bytes in sync\<close>

text \<open>
  Claim C9. A summary that \<open>Summary\<close> returns has the entry \<open>inSyncFiles\<close>, the files of
  the global size minus the needed files, and the entry \<open>inSyncBytes\<close>, the bytes of the
  global size minus the value published as \<open>needBytes\<close>. The subtractions are the ones
  of the machine integers, and they are the mathematical differences when the counts are
  not negative.
\<close>

theorem Summary_inSync:
  fixes c :: "('f::len word, 'b::len word, 'd) folderSummaryService"
  assumes "Summary c folder = Inr res" and "DBSnapshot (model c) folder = Inr snap"
  shows "map_of res ''inSyncFiles'' =
           Some (GoCount (Files (GlobalSize snap) - Files (NeedSize snap))) \<and>
         (\<exists>v. map_of res ''needBytes'' = Some (GoSize v) \<and>
              map_of res ''inSyncBytes'' = Some (GoSize (Bytes (GlobalSize snap) - v)) \<and>
              (0 \<le> sint (Bytes (GlobalSize snap)) \<longrightarrow>
                 sint (Bytes (GlobalSize snap) - v) = sint (Bytes (GlobalSize snap)) - sint v)) \<and>
         (0 \<le> sint (Files (GlobalSize snap)) \<and> 0 \<le> sint (Files (NeedSize snap)) \<longrightarrow>
            sint (Files (GlobalSize snap) - Files (NeedSize snap)) =
              sint (Files (GlobalSize snap)) - sint (Files (NeedSize snap)))"
proof -
  define v where "v =
    (if Bytes (NeedSize snap) - FolderProgressBytesCompleted (model c) folder <s 0 then 0
     else Bytes (NeedSize snap) - FolderProgressBytesCompleted (model c) folder)"
  have nb: "map_of res ''needBytes'' = Some (GoSize v)"
    unfolding v_def by (rule Summary_Inr_facts(1) [OF assms])
  have ib: "map_of res ''inSyncBytes'' = Some (GoSize (Bytes (GlobalSize snap) - v))"
    unfolding v_def by (rule Summary_Inr_facts(4) [OF assms])
  have "0 \<le> sint v"
    unfolding v_def by (rule sint_clamp(1))
  then have sb: "0 \<le> sint (Bytes (GlobalSize snap)) \<longrightarrow>
      sint (Bytes (GlobalSize snap) - v) = sint (Bytes (GlobalSize snap)) - sint v"
    by (simp add: sint_diff_nonneg)
  have sf: "0 \<le> sint (Files (GlobalSize snap)) \<and> 0 \<le> sint (Files (NeedSize snap)) \<longrightarrow>
            sint (Files (GlobalSize snap) - Files (NeedSize snap)) =
              sint (Files (GlobalSize snap)) - sint (Files (NeedSize snap))"
    by (simp add: sint_diff_nonneg)
  from nb ib sb have "\<exists>v. map_of res ''needBytes'' = Some (GoSize v) \<and>
              map_of res ''inSyncBytes'' = Some (GoSize (Bytes (GlobalSize snap) - v)) \<and>
              (0 \<le> sint (Bytes (GlobalSize snap)) \<longrightarrow>
                 sint (Bytes (GlobalSize snap) - v) = sint (Bytes (GlobalSize snap)) - sint v)"
    by (intro exI [of _ v] conjI)
  with Summary_Inr_facts(3) [OF assms] sf show ?thesis
    by (intro conjI)
qed

theorem Summary_inSync_witness:
  "\<exists>res. Summary example_service ''docs'' = Inr res \<and>
     map_of res ''inSyncFiles'' = Some (GoCount 8) \<and>
     map_of res ''needBytes'' = Some (GoSize 0) \<and>
     map_of res ''inSyncBytes'' = Some (GoSize 1000)"
proof -
  obtain res where r: "Summary example_service ''docs'' = Inr res"
    using example_Summary by blast
  have g: "Files (GlobalSize example_snapshot) = 10" "Files (NeedSize example_snapshot) = 2"
    "Bytes (GlobalSize example_snapshot) = 1000"
    by (simp_all add: example_snapshot_def example_counts_def)
  have nb: "map_of res ''needBytes'' = Some (GoSize 0)"
    using Summary_Inr_facts(1) [OF r example_snapshot_ok]
    by (simp add: example_snapshot_def example_counts_def example_service_def example_model_def
        word_sless_alt)
  from Summary_inSync [OF r example_snapshot_ok] nb
  have "map_of res ''inSyncFiles'' = Some (GoCount 8) \<and>
     map_of res ''inSyncBytes'' = Some (GoSize 1000)"
    unfolding g by auto
  with r nb show ?thesis by blast
qed

subsection \<open>The errors of Summary\<close>

text \<open>
  Claim C2. \<open>Summary\<close> returns an error exactly when the query for the snapshot fails, or
  the query for the folder errors fails with an error that is neither
  \<open>ErrFolderPaused\<close> nor \<open>errFolderNotRunning\<close>; the error is the one of the query, and
  no summary comes with it. A failure of the state query is not among these: when
  \<open>Summary\<close> returns a summary and the state query has failed, the entry \<open>error\<close> of the
  summary is the text of that error.
\<close>

theorem Summary_error_iff:
  fixes c :: "('f::len word, 'b::len word, 'd) folderSummaryService"
  shows "(isl (Summary c folder) \<longleftrightarrow>
            isl (DBSnapshot (model c) folder) \<or>
            (\<exists>e. snd (FolderErrors (model c) folder) = Some e \<and>
                 e \<noteq> ErrFolderPaused \<and> e \<noteq> errFolderNotRunning)) \<and>
         (\<forall>e. DBSnapshot (model c) folder = Inl e \<longrightarrow> Summary c folder = Inl e) \<and>
         (\<forall>snap e. DBSnapshot (model c) folder = Inr snap \<longrightarrow>
                   snd (FolderErrors (model c) folder) = Some e \<longrightarrow>
                   e \<noteq> ErrFolderPaused \<longrightarrow> e \<noteq> errFolderNotRunning \<longrightarrow>
                   Summary c folder = Inl e) \<and>
         (\<forall>res e. Summary c folder = Inr res \<longrightarrow>
                  snd (snd (State (model c) folder)) = Some e \<longrightarrow>
                  map_of res ''error'' = Some (GoString (Error (pkgs c) e)))"
proof (intro conjI allI impI)
  show "isl (Summary c folder) \<longleftrightarrow>
            isl (DBSnapshot (model c) folder) \<or>
            (\<exists>e. snd (FolderErrors (model c) folder) = Some e \<and>
                 e \<noteq> ErrFolderPaused \<and> e \<noteq> errFolderNotRunning)"
  proof (cases "DBSnapshot (model c) folder")
    case (Inl e)
    then have "Summary c folder = Inl e" by (rule Summary_fails_snapshot)
    with Inl show ?thesis by simp
  next
    case (Inr snap)
    obtain errors err where fe: "FolderErrors (model c) folder = (errors, err)"
      by (cases "FolderErrors (model c) folder") auto
    show ?thesis
    proof (cases "\<exists>e. err = Some e \<and> e \<noteq> ErrFolderPaused \<and> e \<noteq> errFolderNotRunning")
      case True
      then obtain e where e: "err = Some e" "e \<noteq> ErrFolderPaused" "e \<noteq> errFolderNotRunning"
        by blast
      from Inr fe e have "Summary c folder = Inl e"
        by (intro Summary_fails_errors [of c folder snap errors e]) simp_all
      with fe e show ?thesis by simp
    next
      case False
      then have ok: "err = None \<or> err = Some ErrFolderPaused \<or> err = Some errFolderNotRunning"
        by (cases err) auto
      obtain r where "Summary c folder = Inr r"
        using Summary_facts [OF Inr fe ok] by blast
      with Inr fe False show ?thesis by simp
    qed
  qed
next
  fix e assume "DBSnapshot (model c) folder = Inl e"
  then show "Summary c folder = Inl e" by (rule Summary_fails_snapshot)
next
  fix snap e
  assume "DBSnapshot (model c) folder = Inr snap"
    and "snd (FolderErrors (model c) folder) = Some e"
    and "e \<noteq> ErrFolderPaused" and "e \<noteq> errFolderNotRunning"
  then show "Summary c folder = Inl e"
    by (intro Summary_fails_errors [of c folder snap "fst (FolderErrors (model c) folder)" e])
       (simp_all add: prod_eq_iff)
next
  fix res e
  assume s: "Summary c folder = Inr res"
    and st: "snd (snd (State (model c) folder)) = Some e"
  obtain snap where db: "DBSnapshot (model c) folder = Inr snap"
    using Summary_InrD [OF s] by blast
  from Summary_Inr_facts(6) [OF s db] st
  show "map_of res ''error'' = Some (GoString (Error (pkgs c) e))"
    by (simp only:)
qed

theorem Summary_error_iff_witness:
  "snd (snd (State (model example_service) ''docs'')) = Some (OtherError ''no such folder'') \<and>
   (\<exists>res. Summary example_service ''docs'' = Inr res \<and>
      map_of res ''error'' = Some (GoString ''no such folder''))"
proof -
  have st: "snd (snd (State (model example_service) ''docs'')) =
      Some (OtherError ''no such folder'')"
    by (simp add: example_service_def example_model_def)
  have "\<not> isl (Summary example_service ''docs'')"
    using Summary_error_iff [of example_service "''docs''"]
    by (simp add: example_snapshot_ok example_errors_ok)
  then obtain res where r: "Summary example_service ''docs'' = Inr res"
    by (cases "Summary example_service ''docs''") simp_all
  have "map_of res ''error'' =
      Some (GoString (Error (pkgs example_service) (OtherError ''no such folder'')))"
    using Summary_error_iff [of example_service "''docs''"] r st by blast
  then have "map_of res ''error'' = Some (GoString ''no such folder'')"
    by (simp add: example_service_def example_pkgs_def)
  with st r show ?thesis by blast
qed

lemma sendCompletions_filter:
  "sendCompletions c folder devs =
     map (\<lambda>devCfg. Event FolderCompletion
            (MapStringInterface
               (AList.update ''device'' (GoString (String (pkgs c) (DeviceID devCfg)))
                 (AList.update ''folder'' (GoString folder)
                   (Completion (model c) (DeviceID devCfg) folder)))))
       (filter (\<lambda>devCfg. DeviceID devCfg \<noteq> id_self c \<and> Connection (model c) (DeviceID devCfg))
          devs)"
  by (induction devs) (simp_all add: Let_def)

subsection \<open>The events of sendSummary\<close>

text \<open>
  Claim C7. When \<open>Summary\<close> returns a summary, \<open>sendSummary\<close> logs the FolderSummary event
  first, and after it one FolderCompletion event for each configured device of the folder
  that is not the service's own device and is connected, in the order of the
  configuration, and no other event: none for the own device, none for a device that
  is not connected.
\<close>

theorem sendSummary_events:
  fixes c :: "('f::len word, 'b::len word, 'd) folderSummaryService"
  assumes "Summary c folder = Inr data"
  shows "sendSummary c folder =
     Event FolderSummary
       (MapStringInterface
          [(''folder'', GoString folder), (''summary'', MapStringInterface data)])
     # map (\<lambda>devCfg. Event FolderCompletion
              (MapStringInterface
                 (AList.update ''device'' (GoString (String (pkgs c) (DeviceID devCfg)))
                   (AList.update ''folder'' (GoString folder)
                     (Completion (model c) (DeviceID devCfg) folder)))))
         (filter (\<lambda>devCfg. DeviceID devCfg \<noteq> id_self c \<and>
                            Connection (model c) (DeviceID devCfg))
            (index_folder (Folders (cfg c)) folder))"
  by (simp only: sendSummary_def assms sum.case sendCompletions_filter)

theorem sendSummary_events_witness:
  "\<exists>data. Summary example_service ''docs'' = Inr data \<and>
     id_self example_service = ''self'' \<and>
     map DeviceID (index_folder (Folders (cfg example_service)) ''docs'') =
       [''A'', ''C'', ''self'', ''B''] \<and>
     \<not> Connection (model example_service) ''C'' \<and>
     sendSummary example_service ''docs'' =
       [Event FolderSummary
          (MapStringInterface
             [(''folder'', GoString ''docs''), (''summary'', MapStringInterface data)]),
        Event FolderCompletion
          (MapStringInterface
             [(''completion'', GoInt 100), (''folder'', GoString ''docs''),
              (''device'', GoString ''A'')]),
        Event FolderCompletion
          (MapStringInterface
             [(''completion'', GoInt 100), (''folder'', GoString ''docs''),
              (''device'', GoString ''B'')])]"
proof -
  obtain data where r: "Summary example_service ''docs'' = Inr data"
    using example_Summary by blast
  have d: "index_folder (Folders (cfg example_service)) ''docs'' =
      [\<lparr>DeviceID = ''A''\<rparr>, \<lparr>DeviceID = ''C''\<rparr>, \<lparr>DeviceID = ''self''\<rparr>, \<lparr>DeviceID = ''B''\<rparr>]"
    by (simp add: example_service_def example_cfg_def example_folder_def index_folder_def)
  have s: "id_self example_service = ''self''"
    and m: "model example_service = example_model"
    and p: "pkgs example_service = example_pkgs"
    by (simp_all add: example_service_def)
  have "sendSummary example_service ''docs'' =
       [Event FolderSummary
          (MapStringInterface
             [(''folder'', GoString ''docs''), (''summary'', MapStringInterface data)]),
        Event FolderCompletion
          (MapStringInterface
             [(''completion'', GoInt 100), (''folder'', GoString ''docs''),
              (''device'', GoString ''A'')]),
        Event FolderCompletion
          (MapStringInterface
             [(''completion'', GoInt 100), (''folder'', GoString ''docs''),
              (''device'', GoString ''B'')])]"
    unfolding sendSummary_events [OF r] d s m p
    by (simp add: example_model_def example_pkgs_def)
  with r show ?thesis
    unfolding d s m by (simp add: example_model_def)
qed

subsection \<open>A folder without configuration\<close>

text \<open>
  Claim C10. For a folder that the configuration does not have (\<open>Folder\<close> finds nothing,
  and the map of \<open>Folders\<close> has no such key), \<open>Summary\<close> returns a summary whenever the
  snapshot and the folder errors allow it: \<open>needDeletes\<close> is the count of the snapshot
  and none of the receive-only entries is there. \<open>sendSummary\<close> logs the FolderSummary
  event and nothing else.
\<close>

theorem sendSummary_unconfigured:
  fixes c :: "('f::len word, 'b::len word, 'd) folderSummaryService"
  assumes "DBSnapshot (model c) folder = Inr snap"
    and "FolderErrors (model c) folder = (errors, err)"
    and "err = None \<or> err = Some ErrFolderPaused \<or> err = Some errFolderNotRunning"
    and "Folder (cfg c) folder = None"
    and "map_of (Folders (cfg c)) folder = None"
  shows "\<exists>data. Summary c folder = Inr data \<and>
     sendSummary c folder =
       [Event FolderSummary
          (MapStringInterface
             [(''folder'', GoString folder), (''summary'', MapStringInterface data)])] \<and>
     map_of data ''needDeletes'' = Some (GoCount (Deleted (NeedSize snap))) \<and>
     (\<forall>k \<in> {''receiveOnlyChangedFiles'', ''receiveOnlyChangedDirectories'',
             ''receiveOnlyChangedSymlinks'', ''receiveOnlyChangedDeletes'',
             ''receiveOnlyChangedBytes'', ''receiveOnlyTotalItems''}. map_of data k = None)"
proof -
  obtain data where r: "Summary c folder = Inr data"
    using Summary_facts [OF assms(1,2,3)] by blast
  have ev: "sendSummary c folder =
       [Event FolderSummary
          (MapStringInterface
             [(''folder'', GoString folder), (''summary'', MapStringInterface data)])]"
    by (simp add: sendSummary_def r index_folder_def assms(5))
  have nd: "map_of data ''needDeletes'' = Some (GoCount (Deleted (NeedSize snap)))"
    using Summary_Inr_facts(2) [OF r assms(1)] by (simp add: assms(4))
  have ro: "\<forall>k \<in> {''receiveOnlyChangedFiles'', ''receiveOnlyChangedDirectories'',
             ''receiveOnlyChangedSymlinks'', ''receiveOnlyChangedDeletes'',
             ''receiveOnlyChangedBytes'', ''receiveOnlyTotalItems''}. map_of data k = None"
    using Summary_Inr_facts(5) [OF r assms(1)] assms(4) by (intro ballI) (simp only:)
  from r ev nd ro show ?thesis
    by (intro exI [of _ data] conjI)
qed

theorem sendSummary_unconfigured_witness:
  "Folder (cfg example_service) ''photos'' = None \<and>
   map_of (Folders (cfg example_service)) ''photos'' = None \<and>
   (\<exists>data. Summary example_service ''photos'' = Inr data \<and>
     sendSummary example_service ''photos'' =
       [Event FolderSummary
          (MapStringInterface
             [(''folder'', GoString ''photos''), (''summary'', MapStringInterface data)])] \<and>
     map_of data ''needDeletes'' = Some (GoCount 7) \<and>
     map_of data ''receiveOnlyChangedFiles'' = None)"
proof -
  have f: "Folder (cfg example_service) ''photos'' = None"
    and g: "map_of (Folders (cfg example_service)) ''photos'' = None"
    by (simp_all add: example_service_def example_cfg_def)
  have d: "Deleted (NeedSize example_snapshot) = 7"
    by (simp add: example_snapshot_def example_counts_def)
  from sendSummary_unconfigured [OF example_snapshot_ok example_errors_ok _ f g]
  obtain data where "Summary example_service ''photos'' = Inr data"
    and "sendSummary example_service ''photos'' =
       [Event FolderSummary
          (MapStringInterface
             [(''folder'', GoString ''photos''), (''summary'', MapStringInterface data)])]"
    and "map_of data ''needDeletes'' = Some (GoCount 7)"
    and "map_of data ''receiveOnlyChangedFiles'' = None"
    unfolding d by auto
  with f g show ?thesis by blast
qed

subsection \<open>State changes\<close>

text \<open>
  Claim C4. For a StateChanged event whose payload has strings under \<open>to\<close>, \<open>from\<close> and
  \<open>folder\<close>, \<open>processUpdate\<close> changes something only when \<open>to\<close> is \<open>idle\<close> and \<open>from\<close>
  is \<open>syncing\<close> or \<open>sync-preparing\<close>. Then, when the send on the channel
  \<open>immediate\<close> goes through, the folder is sent and deleted from the set of folders, and
  that is all; when the send would block, nothing is sent and the folder is put into the
  set, for the next round of the timer.
\<close>

theorem processUpdate_StateChanged:
  assumes "index_any payload ''to'' = GoString to"
    and "index_any payload ''from'' = GoString from"
    and "index_any payload ''folder'' = GoString folder"
  shows "processUpdate c ready (Event StateChanged (MapStringInterface payload)) =
           (if to = ''idle'' \<and> (from = ''syncing'' \<or> from = ''sync-preparing'')
            then (if ready
                  then Inr (c\<lparr>folders := AList.delete folder (folders c)\<rparr>, Some folder)
                  else Inr (c\<lparr>folders := AList.update folder () (folders c)\<rparr>, None))
            else Inr (c, None)) \<and>
         folder \<notin> fst ` set (AList.delete folder (folders c)) \<and>
         folder \<in> fst ` set (AList.update folder () (folders c))"
proof (intro conjI)
  show "processUpdate c ready (Event StateChanged (MapStringInterface payload)) =
           (if to = ''idle'' \<and> (from = ''syncing'' \<or> from = ''sync-preparing'')
            then (if ready
                  then Inr (c\<lparr>folders := AList.delete folder (folders c)\<rparr>, Some folder)
                  else Inr (c\<lparr>folders := AList.update folder () (folders c)\<rparr>, None))
            else Inr (c, None))"
    by (simp add: processUpdate_def assms mark_def)
  show "folder \<notin> fst ` set (AList.delete folder (folders c))"
    by (rule delete_notin_dom)
  show "folder \<in> fst ` set (AList.update folder () (folders c))"
    by (simp add: dom_update)
qed

theorem processUpdate_StateChanged_witness:
  "processUpdate example_service True
     (Event StateChanged
        (MapStringInterface
           [(''folder'', GoString ''docs''), (''to'', GoString ''idle''),
            (''from'', GoString ''syncing'')])) =
     Inr (example_service\<lparr>folders := []\<rparr>, Some ''docs'') \<and>
   processUpdate (example_service\<lparr>folders := []\<rparr>) False
     (Event StateChanged
        (MapStringInterface
           [(''folder'', GoString ''docs''), (''to'', GoString ''idle''),
            (''from'', GoString ''sync-preparing'')])) =
     Inr (example_service\<lparr>folders := [(''docs'', ())]\<rparr>, None) \<and>
   processUpdate example_service True
     (Event StateChanged
        (MapStringInterface
           [(''folder'', GoString ''docs''), (''to'', GoString ''idle''),
            (''from'', GoString ''scanning'')])) =
     Inr (example_service, None)"
proof -
  have f: "folders example_service = [(''docs'', ())]"
    by (simp add: example_service_def)
  have 1: "processUpdate example_service True
     (Event StateChanged
        (MapStringInterface
           [(''folder'', GoString ''docs''), (''to'', GoString ''idle''),
            (''from'', GoString ''syncing'')])) =
     Inr (example_service\<lparr>folders := []\<rparr>, Some ''docs'')"
    using processUpdate_StateChanged [of _ "''idle''" "''syncing''" "''docs''" example_service True]
    by (simp add: index_any_def f)
  have 2: "processUpdate (example_service\<lparr>folders := []\<rparr>) False
     (Event StateChanged
        (MapStringInterface
           [(''folder'', GoString ''docs''), (''to'', GoString ''idle''),
            (''from'', GoString ''sync-preparing'')])) =
     Inr (example_service\<lparr>folders := [(''docs'', ())]\<rparr>, None)"
    using processUpdate_StateChanged [of _ "''idle''" "''sync-preparing''" "''docs''"
        "example_service\<lparr>folders := []\<rparr>" False]
    by (simp add: index_any_def)
  have 3: "processUpdate example_service True
     (Event StateChanged
        (MapStringInterface
           [(''folder'', GoString ''docs''), (''to'', GoString ''idle''),
            (''from'', GoString ''scanning'')])) =
     Inr (example_service, None)"
    using processUpdate_StateChanged [of _ "''idle''" "''scanning''" "''docs''" example_service True]
    by (simp add: index_any_def)
  from 1 2 3 show ?thesis by (intro conjI)
qed

subsection \<open>A round of the timer when nobody listens\<close>

text \<open>
  Claim C1, as the code has it. When the last event request is more than a minute before
  the reading of the clock in \<open>foldersToHandle\<close>, a round of the timer returns no
  folders, calculates no summary and logs no event, and it leaves the service as it is:
  the set of folders keeps its members, for the first round after the next event request.
\<close>

theorem pumpCase_nobody_listening:
  fixes c :: "('f::len word, 'b::len word, 'd) folderSummaryService"
  assumes "minSummaryInterval <s Since tc (lastEventReq c)"
  shows "foldersToHandle c tc = ([], c) \<and>
         fst (pumpCase c t0 tc t1 tr) = c \<and>
         fst (snd (pumpCase c t0 tc t1 tr)) = []"
  using assms by (simp add: pumpCase_def foldersToHandle_def)

theorem pumpCase_nobody_listening_witness:
  "minSummaryInterval <s Since 60000000001 (lastEventReq example_service) \<and>
   foldersToHandle example_service 60000000001 = ([], example_service) \<and>
   fst (pumpCase example_service 60000000000 60000000001 60000000002 60000000003) =
     example_service \<and>
   fst (snd (pumpCase example_service 60000000000 60000000001 60000000002 60000000003)) = []"
proof -
  have g: "minSummaryInterval <s Since 60000000001 (lastEventReq example_service)"
    by (simp add: minSummaryInterval_def Minute_def Second_def Since_def example_service_def
        word_sless_alt)
  from pumpCase_nobody_listening [OF g, of 60000000000 60000000002 60000000003] g
  show ?thesis by simp
qed

text \<open>
  The claim as it was stated, that such a round leaves the set of folders empty, fails:
  the folder \<open>docs\<close> of the example is still there after the round.
\<close>

theorem pumpCase_nobody_listening_counterexample:
  "minSummaryInterval <s Since 60000000001 (lastEventReq example_service) \<and>
   folders (fst (pumpCase example_service 60000000000 60000000001 60000000002 60000000003))
     = [(''docs'', ())] \<and>
   folders (fst (pumpCase example_service 60000000000 60000000001 60000000002 60000000003))
     \<noteq> []"
  by (simp add: pumpCase_def foldersToHandle_def minSummaryInterval_def Minute_def Second_def
      Since_def example_service_def word_sless_alt)

subsection \<open>The timer after a round\<close>

lemma sint_word_of_int_64:
  "- 9223372036854775808 \<le> d \<Longrightarrow> d \<le> 9223372036854775807 \<Longrightarrow>
   sint (word_of_int d :: 64 word) = d"
  by (simp add: sint_sbintrunc' signed_take_bit_int_eq_self)

lemma sint_Since:
  assumes "0 \<le> t1 - t0" and "t1 - t0 \<le> 9223372036854775807"
  shows "sint (Since t1 t0) = t1 - t0"
proof -
  have e: "Since t1 t0 = word_of_int (t1 - t0)"
    using assms by (simp add: Since_def)
  show ?thesis
    unfolding e using assms by (intro sint_word_of_int_64) simp_all
qed

lemma sint_wait:
  assumes "0 \<le> t1 - t0" and "t1 - t0 \<le> 4611686017427387903"
  shows "sint (2 * Since t1 t0 + pumpInterval) = 2 * (t1 - t0) + 2000000000"
proof -
  have d: "sint (Since t1 t0) = t1 - t0"
    using assms by (intro sint_Since) simp_all
  have "sint (2 * Since t1 t0) = signed_take_bit 63 (2 * sint (Since t1 t0))"
    by (simp add: sint_word_ariths)
  also have "\<dots> = 2 * (t1 - t0)"
    unfolding d using assms by (intro signed_take_bit_int_eq_self) simp_all
  finally have m: "sint (2 * Since t1 t0) = 2 * (t1 - t0)" .
  have p: "sint pumpInterval = 2000000000"
    by (simp add: pumpInterval_def Second_def)
  have "sint (2 * Since t1 t0 + pumpInterval) =
      signed_take_bit 63 (sint (2 * Since t1 t0) + sint pumpInterval)"
    by (simp add: sint_word_ariths)
  also have "\<dots> = 2 * (t1 - t0) + 2000000000"
    unfolding m p using assms by (intro signed_take_bit_int_eq_self) simp_all
  finally show ?thesis .
qed

text \<open>
  Claim C8. A round of the timer resets the timer with twice the time the round has
  taken plus the pump interval of two seconds. \<open>d\<close> is the time from the reading \<open>t0\<close>
  at the start of the round to the reading \<open>t1\<close> after the last summary; twice \<open>d\<close> plus
  the interval is calculated in \<open>int64\<close>, and it is the number \<open>2 * d + T\<close> for every
  \<open>d\<close> of at most 4611686017427387903 nanoseconds (146 years). The timer, reset at
  \<open>tr\<close>, not before \<open>t1\<close>, then fires no sooner than \<open>2 * d + T\<close> after \<open>t0\<close>.
\<close>

theorem pumpCase_reset:
  fixes c :: "('f::len word, 'b::len word, 'd) folderSummaryService"
  shows "snd (snd (pumpCase c t0 tc t1 tr)) = Reset tr (2 * Since t1 t0 + pumpInterval) \<and>
         sint pumpInterval = 2000000000 \<and>
         (0 \<le> t1 - t0 \<and> t1 - t0 \<le> 4611686017427387903 \<longrightarrow>
            sint (Since t1 t0) = t1 - t0 \<and>
            sint (2 * Since t1 t0 + pumpInterval) = 2 * (t1 - t0) + sint pumpInterval \<and>
            snd (snd (pumpCase c t0 tc t1 tr)) = tr + (2 * (t1 - t0) + sint pumpInterval) \<and>
            (t1 \<le> tr \<longrightarrow>
               t0 + (2 * (t1 - t0) + sint pumpInterval) \<le> snd (snd (pumpCase c t0 tc t1 tr))))"
proof -
  have r: "snd (snd (pumpCase c t0 tc t1 tr)) = Reset tr (2 * Since t1 t0 + pumpInterval)"
    by (simp add: pumpCase_def Let_def split: prod.split)
  have p: "sint pumpInterval = 2000000000"
    by (simp add: pumpInterval_def Second_def)
  have "sint (Since t1 t0) = t1 - t0 \<and>
        sint (2 * Since t1 t0 + pumpInterval) = 2 * (t1 - t0) + sint pumpInterval \<and>
        snd (snd (pumpCase c t0 tc t1 tr)) = tr + (2 * (t1 - t0) + sint pumpInterval) \<and>
        (t1 \<le> tr \<longrightarrow>
           t0 + (2 * (t1 - t0) + sint pumpInterval) \<le> snd (snd (pumpCase c t0 tc t1 tr)))"
    if b: "0 \<le> t1 - t0" "t1 - t0 \<le> 4611686017427387903"
  proof -
    have s: "sint (Since t1 t0) = t1 - t0"
      using b by (intro sint_Since) simp_all
    have w: "sint (2 * Since t1 t0 + pumpInterval) = 2 * (t1 - t0) + 2000000000"
      using b by (rule sint_wait)
    from s w b show ?thesis
      unfolding r p by (simp add: Reset_def)
  qed
  with r p show ?thesis by blast
qed

theorem pumpCase_reset_witness:
  "snd (snd (pumpCase example_service 1000000000 1000000001 4000000000 4000000005)) =
     4000000005 + (2 * 3000000000 + 2000000000) \<and>
   1000000000 + (2 * 3000000000 + 2000000000) \<le>
     snd (snd (pumpCase example_service 1000000000 1000000001 4000000000 4000000005))"
  using pumpCase_reset [of example_service 1000000000 1000000001 4000000000 4000000005]
  by simp

subsection \<open>Marking a folder more than once\<close>

lemma mark_twice: "mark (mark c folder) folder = mark c folder"
  by (simp add: mark_def)

lemma mark_funpow: "0 < N \<Longrightarrow> ((\<lambda>s. mark s folder) ^^ N) c = mark c folder"
proof (induction N)
  case 0
  then show ?case by simp
next
  case (Suc N)
  show ?case
  proof (cases "N = 0")
    case True
    then show ?thesis by simp
  next
    case False
    with Suc.IH have "((\<lambda>s. mark s folder) ^^ N) c = mark c folder" by simp
    then show ?thesis by (simp add: mark_twice)
  qed
qed

lemma keys_delete: "fst ` set (AList.delete k al) = fst ` set al - {k}"
proof -
  have "fst ` set (AList.delete k al) = set (map fst (AList.delete k al))" by simp
  also have "\<dots> = set (map fst al) - {k}" by (simp only: delete_keys set_removeAll)
  finally show ?thesis by simp
qed

lemma rangeFolders_count:
  "count_list (fst (rangeFolders m res)) f =
     count_list res f + (if f \<in> fst ` set m then 1 else 0)"
proof (induction m res rule: rangeFolders.induct)
  case (1 res)
  show ?case by simp
next
  case (2 folder u m res)
  then show ?case by (auto simp add: keys_delete)
qed

lemma rangeFolders_empties: "snd (rangeFolders m res) = []"
  by (induction m res rule: rangeFolders.induct) simp_all

lemma Summary_cong:
  assumes "pkgs c' = pkgs c" and "cfg c' = cfg c" and "model c' = model c"
  shows "Summary c' folder = Summary c folder"
  by (simp only: Summary_def assms)

lemma sendCompletions_cong:
  assumes "pkgs c' = pkgs c" and "id_self c' = id_self c" and "model c' = model c"
  shows "sendCompletions c' folder devs = sendCompletions c folder devs"
  by (induction devs) (simp_all add: assms)

lemma sendSummary_cong:
  assumes "pkgs c' = pkgs c" and "cfg c' = cfg c" and "model c' = model c"
    and "id_self c' = id_self c"
  shows "sendSummary c' folder = sendSummary c folder"
  by (simp only: sendSummary_def Summary_cong [OF assms(1,2,3)]
      sendCompletions_cong [OF assms(1,4,3)] assms(2))

lemma sendSummaries_cong:
  assumes "pkgs c' = pkgs c" and "cfg c' = cfg c" and "model c' = model c"
    and "id_self c' = id_self c"
  shows "sendSummaries c' fs = sendSummaries c fs"
  by (induction fs) (simp_all add: sendSummary_cong [OF assms])

lemma sendCompletions_no_summary:
  "count_list (sendCompletions c folder devs) (Event FolderSummary x) = 0"
  by (induction devs) (simp_all add: Let_def)

lemma sendSummary_count:
  assumes "Summary c f = Inr data"
  shows "count_list (sendSummary c g)
           (Event FolderSummary
              (MapStringInterface
                 [(''folder'', GoString f), (''summary'', MapStringInterface data)])) =
         (if g = f then 1 else 0)"
proof (cases "g = f")
  case True
  then show ?thesis
    by (simp add: sendSummary_def assms sendCompletions_no_summary)
next
  case False
  then show ?thesis
    by (cases "Summary c g") (simp_all add: sendSummary_def sendCompletions_no_summary)
qed

lemma sendSummaries_count:
  assumes "Summary c f = Inr data"
  shows "count_list (sendSummaries c fs)
           (Event FolderSummary
              (MapStringInterface
                 [(''folder'', GoString f), (''summary'', MapStringInterface data)])) =
         count_list fs f"
  by (induction fs) (simp_all add: sendSummary_count [OF assms])

text \<open>
  Claim C5. Marking a folder \<open>N\<close> times, \<open>N\<close> at least one, leaves the service as
  marking it once does. When somebody listens, the next round of the timer takes the
  folder out of the set exactly once and leaves the set empty, and when \<open>Summary\<close>
  returns a summary for the folder, the round logs exactly one FolderSummary event for it.
\<close>

theorem mark_idempotent:
  fixes c :: "('f::len word, 'b::len word, 'd) folderSummaryService"
  assumes "0 < N" and "\<not> minSummaryInterval <s Since tc (lastEventReq c)"
  shows "((\<lambda>s. mark s folder) ^^ N) c = mark c folder \<and>
         count_list (fst (foldersToHandle (((\<lambda>s. mark s folder) ^^ N) c) tc)) folder = 1 \<and>
         folders (snd (foldersToHandle (((\<lambda>s. mark s folder) ^^ N) c) tc)) = [] \<and>
         (\<forall>data. Summary c folder = Inr data \<longrightarrow>
            count_list (fst (snd (pumpCase (((\<lambda>s. mark s folder) ^^ N) c) t0 tc t1 tr)))
              (Event FolderSummary
                 (MapStringInterface
                    [(''folder'', GoString folder), (''summary'', MapStringInterface data)]))
            = 1)"
proof -
  define m where "m = mark c folder"
  have n: "((\<lambda>s. mark s folder) ^^ N) c = m"
    unfolding m_def using assms(1) by (rule mark_funpow)
  have live: "\<not> minSummaryInterval <s Since tc (lastEventReq m)"
    using assms(2) by (simp add: m_def mark_def)
  have inm: "folder \<in> fst ` set (folders m)"
    by (simp add: m_def mark_def dom_update)
  obtain fs rest where rf: "rangeFolders (folders m) [] = (fs, rest)"
    by (cases "rangeFolders (folders m) []") auto
  have "rest = []"
    using rangeFolders_empties [of "folders m" "[]"] by (simp add: rf)
  with rf live have fth: "foldersToHandle m tc =
      (fst (rangeFolders (folders m) []), m\<lparr>folders := []\<rparr>)"
    by (simp add: foldersToHandle_def)
  have cnt: "count_list (fst (rangeFolders (folders m) [])) folder = 1"
    using inm by (simp add: rangeFolders_count)
  have ev: "count_list (fst (snd (pumpCase m t0 tc t1 tr)))
              (Event FolderSummary
                 (MapStringInterface
                    [(''folder'', GoString folder), (''summary'', MapStringInterface data)]))
            = 1" if s: "Summary c folder = Inr data" for data
  proof -
    have e: "fst (snd (pumpCase m t0 tc t1 tr)) =
        sendSummaries (m\<lparr>folders := []\<rparr>) (fst (rangeFolders (folders m) []))"
      by (simp add: pumpCase_def fth Let_def)
    have "sendSummaries (m\<lparr>folders := []\<rparr>) (fst (rangeFolders (folders m) [])) =
        sendSummaries c (fst (rangeFolders (folders m) []))"
      by (rule sendSummaries_cong) (simp_all add: m_def mark_def)
    with e sendSummaries_count [OF s, of "fst (rangeFolders (folders m) [])"] cnt
    show ?thesis by simp
  qed
  show ?thesis
    unfolding n using fth cnt ev by (simp add: m_def)
qed

theorem mark_idempotent_witness:
  "\<not> minSummaryInterval <s Since 1000000000 (lastEventReq example_service) \<and>
   ((\<lambda>s. mark s ''docs'') ^^ 3) example_service = mark example_service ''docs'' \<and>
   fst (foldersToHandle (((\<lambda>s. mark s ''docs'') ^^ 3) example_service) 1000000000) =
     [''docs''] \<and>
   (\<exists>data. Summary example_service ''docs'' = Inr data \<and>
      count_list
        (fst (snd (pumpCase (((\<lambda>s. mark s ''docs'') ^^ 3) example_service)
                     1000000000 1000000000 1000000000 1000000000)))
        (Event FolderSummary
           (MapStringInterface
              [(''folder'', GoString ''docs''), (''summary'', MapStringInterface data)]))
      = 1)"
proof -
  have live: "\<not> minSummaryInterval <s Since 1000000000 (lastEventReq example_service)"
    by (simp add: minSummaryInterval_def Minute_def Second_def Since_def example_service_def
        word_sless_alt)
  obtain data where r: "Summary example_service ''docs'' = Inr data"
    using example_Summary by blast
  have pos: "0 < (3::nat)" by simp
  note t = mark_idempotent [OF pos live, of "''docs''"]
  have a: "((\<lambda>s. mark s ''docs'') ^^ 3) example_service = mark example_service ''docs''"
    by (rule t [THEN conjunct1])
  have "count_list
      (fst (foldersToHandle (((\<lambda>s. mark s ''docs'') ^^ 3) example_service) 1000000000))
      ''docs'' = 1"
    by (rule t [THEN conjunct2, THEN conjunct1])
  have b: "fst (foldersToHandle (((\<lambda>s. mark s ''docs'') ^^ 3) example_service) 1000000000)
      = [''docs'']"
    unfolding a using live
    by (simp add: foldersToHandle_def mark_def example_service_def)
  have d: "count_list
        (fst (snd (pumpCase (((\<lambda>s. mark s ''docs'') ^^ 3) example_service)
                     1000000000 1000000000 1000000000 1000000000)))
        (Event FolderSummary
           (MapStringInterface
              [(''folder'', GoString ''docs''), (''summary'', MapStringInterface data)]))
      = 1"
    by (rule t [THEN conjunct2, THEN conjunct2, THEN conjunct2, rule_format, OF r])
  from live a b r d show ?thesis
    by (intro conjI exI [of _ data])
qed

end
